theory Spec2Isabelle
  imports Complex_Main
begin

section \<open>The aerial map display of rviz\_satellite\<close>

text \<open>
  A shallow embedding of \<^verbatim>\<open>src/aerialmap_display.cpp\<close>. The display is a
  record of its member variables; every member function takes the display and returns
  the updated one. C++ \<^verbatim>\<open>float\<close> and \<^verbatim>\<open>double\<close> values are read as
  real numbers: rounding, infinities and NaN are not modelled. Integers of the source
  (\<^verbatim>\<open>int\<close> zoom levels, block counts and tile coordinates) stay far below
  the 32-bit range for the bounded zoom and block properties and are read as \<open>int\<close>.
\<close>

subsection \<open>Ogre vectors and quaternions\<close>

text \<open>
  \<^verbatim>\<open>Ogre::Vector3\<close> and \<^verbatim>\<open>Ogre::Quaternion\<close> belong to the rendering
  library, not to this repository. The operators the display uses are written out as
  the library defines them (\<^verbatim>\<open>OgreVector3.h\<close>, \<^verbatim>\<open>OgreQuaternion.cpp\<close>).
\<close>

datatype Vector3 = Vector3 (vx: real) (vy: real) (vz: real)

instantiation Vector3 :: ab_group_add
begin

definition zero_Vector3 :: Vector3 where
  "zero_Vector3 = Vector3 0 0 0"

definition plus_Vector3 :: "Vector3 \<Rightarrow> Vector3 \<Rightarrow> Vector3" where
  "plus_Vector3 a b = Vector3 (vx a + vx b) (vy a + vy b) (vz a + vz b)"

definition uminus_Vector3 :: "Vector3 \<Rightarrow> Vector3" where
  "uminus_Vector3 a = Vector3 (- vx a) (- vy a) (- vz a)"

definition minus_Vector3 :: "Vector3 \<Rightarrow> Vector3 \<Rightarrow> Vector3" where
  "minus_Vector3 a b = Vector3 (vx a - vx b) (vy a - vy b) (vz a - vz b)"

instance
  by standard
    (simp_all add: zero_Vector3_def plus_Vector3_def uminus_Vector3_def minus_Vector3_def)

end

definition scale :: "real \<Rightarrow> Vector3 \<Rightarrow> Vector3" where
  "scale k v = Vector3 (k * vx v) (k * vy v) (k * vz v)"

definition crossProduct :: "Vector3 \<Rightarrow> Vector3 \<Rightarrow> Vector3" where
  "crossProduct a b =
     Vector3 (vy a * vz b - vz a * vy b) (vz a * vx b - vx a * vz b) (vx a * vy b - vy a * vx b)"

datatype Quaternion = Quaternion (qw: real) (qx: real) (qy: real) (qz: real)

text \<open>\<^verbatim>\<open>Quaternion::Inverse\<close>: the conjugate over the squared norm, zero for the zero quaternion.\<close>

definition Inverse :: "Quaternion \<Rightarrow> Quaternion" where
  "Inverse q =
     (let fNorm = qw q * qw q + qx q * qx q + qy q * qy q + qz q * qz q
      in if fNorm > 0
         then (let fInvNorm = 1 / fNorm
               in Quaternion (qw q * fInvNorm) (- qx q * fInvNorm) (- qy q * fInvNorm) (- qz q * fInvNorm))
         else Quaternion 0 0 0 0)"

text \<open>\<^verbatim>\<open>Quaternion * Quaternion\<close>.\<close>

definition quat_mul :: "Quaternion \<Rightarrow> Quaternion \<Rightarrow> Quaternion" where
  "quat_mul p q =
     Quaternion
       (qw p * qw q - qx p * qx q - qy p * qy q - qz p * qz q)
       (qw p * qx q + qx p * qw q + qy p * qz q - qz p * qy q)
       (qw p * qy q + qy p * qw q + qz p * qx q - qx p * qz q)
       (qw p * qz q + qz p * qw q + qx p * qy q - qy p * qx q)"

text \<open>\<^verbatim>\<open>Quaternion * Vector3\<close>: the vector rotated by the quaternion.\<close>

definition rotateVector :: "Quaternion \<Rightarrow> Vector3 \<Rightarrow> Vector3" where
  "rotateVector q v =
     (let qvec = Vector3 (qx q) (qy q) (qz q);
          uv = crossProduct qvec v;
          uuv = crossProduct qvec uv
      in v + scale (2 * qw q) uv + scale 2 uuv)"

subsection \<open>Tiles, areas and position fixes\<close>

text \<open>
  \<^verbatim>\<open>TileCoordinate\<close>, \<^verbatim>\<open>TileId\<close>, \<^verbatim>\<open>Area\<close> and \<^verbatim>\<open>OgreTile\<close>
  are declared in headers outside \<^verbatim>\<open>src/\<close>; only the fields the display reads are
  kept. The fields \<^verbatim>\<open>x\<close>, \<^verbatim>\<open>y\<close> of a coordinate are \<open>tile_x\<close>, \<open>tile_y\<close>
  here, and the \<^verbatim>\<open>zoom\<close> of a tile identity is \<open>tileZoom\<close>, to keep them apart from
  variables and from the display's own zoom. Equality of tile identities is equality of
  all three fields.
\<close>

record TileCoordinate =
  tile_x :: int
  tile_y :: int

record TileId =
  tileServer :: string
  coord :: TileCoordinate
  tileZoom :: int

record Area =
  leftTop :: TileCoordinate
  rightBottom :: TileCoordinate
  center :: TileId

text \<open>A ready tile, as far as the display looks at it: the name of its texture.\<close>

datatype OgreTile = OgreTile (textureName: string)

text \<open>
  \<^verbatim>\<open>sensor_msgs::NavSatFix\<close>, with the two header fields the display reads.
  \<^verbatim>\<open>ros::Time\<close> is a number of nanoseconds; \<^verbatim>\<open>ros::Time()\<close> is zero.
\<close>

type_synonym Time = nat

record NavSatFix =
  latitude :: real
  longitude :: real
  frame_id :: string
  stamp :: Time

subsection \<open>The collaborators of the display\<close>

text \<open>
  The projection functions (\<^verbatim>\<open>fromWGSCoordinate\<close>, \<^verbatim>\<open>zoomToResolution\<close>),
  the \<^verbatim>\<open>Area\<close> constructor and the tile cache are code of headers that are not part
  of \<^verbatim>\<open>src/\<close>. The display is verified against any implementation of them: they are
  the fields of an environment that every member function takes. The tile cache is a
  value of an arbitrary type \<open>'c\<close>. A request may throw: it returns the message of the
  exception, if any, beside the cache it leaves behind.
\<close>

record 'c Env =
  fromWGSCoordinate_int :: "real \<times> real \<Rightarrow> int \<Rightarrow> TileCoordinate"
  fromWGSCoordinate_double :: "real \<times> real \<Rightarrow> int \<Rightarrow> real \<times> real"
  zoomToResolution :: "real \<Rightarrow> int \<Rightarrow> real"
  mkArea :: "TileId \<Rightarrow> int \<Rightarrow> Area"
  cache_request :: "Area \<Rightarrow> 'c \<Rightarrow> string option \<times> 'c"
  cache_ready :: "'c \<Rightarrow> TileId \<Rightarrow> OgreTile option"
  cache_purge :: "Area \<Rightarrow> 'c \<Rightarrow> 'c"
  cache_getTileServerErrorRate :: "'c \<Rightarrow> string \<Rightarrow> real"

text \<open>
  The frame manager of the host (\<^verbatim>\<open>context_->getFrameManager()\<close>): a lookup of
  the transform of a frame to the fixed frame, which may fail, and the description of
  the problem a failed lookup has, if one is known.
\<close>

record FrameManager =
  getTransform :: "string \<Rightarrow> Time \<Rightarrow> (Vector3 \<times> Quaternion) option"
  transformHasProblems :: "string \<Rightarrow> Time \<Rightarrow> string option"

definition MAP_FRAME :: string where
  "MAP_FRAME = ''map''"

subsection \<open>The display\<close>

datatype Level = Ok | Warn | Error

datatype SceneBlendType = SBT_REPLACE | SBT_TRANSPARENT_ALPHA

datatype RenderQueueGroup = RENDER_QUEUE_3 | RENDER_QUEUE_MAIN

text \<open>
  A \<^verbatim>\<open>MapObject\<close> is a manual object of the scene with its material. The names
  \<^verbatim>\<open>satellite_object_<n>\<close> and \<^verbatim>\<open>satellite_material_<n>\<close> are kept as the
  number \<open>n\<close>. The quad is the list of vertices, each a position and a texture coordinate.
\<close>

record MapObject =
  name_suffix :: nat
  visible :: bool
  texture :: "string option"
  depthWrite :: bool
  sceneBlending :: SceneBlendType
  renderQueueGroup :: RenderQueueGroup
  alphaOperation :: "real option"
  quad :: "(Vector3 \<times> real \<times> real) list"

text \<open>
  The member variables, without the trailing underscore of the source. \<open>enabled\<close> is
  what \<^verbatim>\<open>isEnabled()\<close> returns, \<open>count\<close> the static counter of
  \<^verbatim>\<open>createTileObjects\<close>, \<open>scene_position\<close> and \<open>scene_orientation\<close> the pose of
  \<^verbatim>\<open>scene_node_\<close>, \<open>topic\<close> the value of the topic property, \<open>coord_sub\<close>
  the topic of the subscription while there is one, and \<open>status\<close> the status
  entries set by \<^verbatim>\<open>setStatus\<close>, by name.
\<close>

record 'c AerialMapDisplay =
  enabled :: bool
  dirty :: bool
  alpha :: real
  draw_under :: bool
  tile_url :: string
  zoom :: int
  blocks :: int
  ref_fix :: "NavSatFix option"
  lastCenterTile :: "TileId option"
  objects :: "MapObject list"
  count :: nat
  tileCache :: 'c
  t_centertile_map :: Vector3
  scene_position :: Vector3
  scene_orientation :: Quaternion
  fixed_frame :: string
  topic :: string
  coord_sub :: "string option"
  status :: "string \<Rightarrow> (Level \<times> string) option"

definition setStatus :: "Level \<Rightarrow> string \<Rightarrow> string \<Rightarrow> 'c AerialMapDisplay \<Rightarrow> 'c AerialMapDisplay" where
  "setStatus level name text s = s\<lparr>status := (status s)(name \<mapsto> (level, text))\<rparr>"

subsection \<open>Tile size\<close>

text \<open>
  \<^verbatim>\<open>getTileWH\<close> is a const member function: it takes the display and returns a
  number. The product of the integer constant \<^verbatim>\<open>tile_w_h_px\<close> and the resolution.
\<close>

definition tile_w_h_px :: int where
  "tile_w_h_px = 256"

definition getTileWH :: "'c Env \<Rightarrow> 'c AerialMapDisplay \<Rightarrow> real \<Rightarrow> int \<Rightarrow> real" where
  "getTileWH env s lat z =
     (let resolution = zoomToResolution env lat z;
          tile_w_h_m = of_int tile_w_h_px * resolution
      in tile_w_h_m)"

subsection \<open>Status of the tile requests\<close>

definition checkRequestErrorRate :: "'c Env \<Rightarrow> 'c AerialMapDisplay \<Rightarrow> 'c AerialMapDisplay" where
  "checkRequestErrorRate env s =
     (let errorRate = cache_getTileServerErrorRate env (tileCache s) (tile_url s)
      in if errorRate > 0.95
         then setStatus Error ''TileRequest'' ''Few or no tiles received'' s
         else if errorRate > 0.3
         then setStatus Warn ''TileRequest''
                ''Not all requested tiles have been received. Possibly the server is throttling?'' s
         else setStatus Ok ''TileRequest'' ''OK'' s)"

subsection \<open>Tile objects\<close>

text \<open>
  Destroying the tile objects detaches every object from the scene node and removes
  its material; what is left of them in the display is the empty list.
\<close>

definition destroyTileObjects :: "'c AerialMapDisplay \<Rightarrow> 'c AerialMapDisplay" where
  "destroyTileObjects s = s\<lparr>objects := []\<rparr>"

text \<open>
  A fresh object: invisible, attached to the scene node, with a material that does not
  write depth and a texture unit without a texture.
\<close>

definition newMapObject :: "nat \<Rightarrow> MapObject" where
  "newMapObject n =
     \<lparr>name_suffix = n, visible = False, texture = None, depthWrite = False,
      sceneBlending = SBT_REPLACE, renderQueueGroup = RENDER_QUEUE_MAIN,
      alphaOperation = None, quad = []\<rparr>"

text \<open>The body of the loop of \<^verbatim>\<open>createTileObjects\<close>, run the given number of times.\<close>

fun createLoop :: "nat \<Rightarrow> 'c AerialMapDisplay \<Rightarrow> 'c AerialMapDisplay" where
  "createLoop 0 s = s"
| "createLoop (Suc n) s =
     createLoop n (s\<lparr>objects := objects s @ [newMapObject (count s)], count := Suc (count s)\<rparr>)"

definition createTileObjects :: "'c AerialMapDisplay \<Rightarrow> 'c AerialMapDisplay" where
  "createTileObjects s =
     (let s1 = (if objects s \<noteq> [] then destroyTileObjects s else s)
      in createLoop (nat ((2 * blocks s1 + 1) * (2 * blocks s1 + 1))) s1)"

subsection \<open>Requesting tiles\<close>

definition requestTileTextures :: "'c Env \<Rightarrow> 'c AerialMapDisplay \<Rightarrow> 'c AerialMapDisplay" where
  "requestTileTextures env s =
     (if \<not> enabled s then s
      else if tile_url s = [] then setStatus Error ''TileRequest'' ''Tile URL is not set'' s
      else case lastCenterTile s of
             None \<Rightarrow> setStatus Error ''Message'' ''No NavSatFix received yet'' s
           | Some c \<Rightarrow>
               (case cache_request env (mkArea env c (blocks s)) (tileCache s) of
                  (None, cache') \<Rightarrow> s\<lparr>tileCache := cache', dirty := True\<rparr>
                | (Some what, cache') \<Rightarrow>
                    setStatus Error ''TileRequest'' what (s\<lparr>tileCache := cache'\<rparr>)))"

subsection \<open>The two transforms\<close>

text \<open>
  \<^verbatim>\<open>getMapTransform\<close> returns the error message where the source returns false, and
  the position and orientation where it returns true. Both failure branches ask the frame
  manager about the query frame, as the source does.
\<close>

definition getMapTransform :: "FrameManager \<Rightarrow> string \<Rightarrow> Time \<Rightarrow> string + (Vector3 \<times> Quaternion)" where
  "getMapTransform fm query_frame timestamp =
     (case getTransform fm query_frame timestamp of
        None \<Rightarrow>
          Inl (case transformHasProblems fm query_frame timestamp of
                 Some error \<Rightarrow> error
               | None \<Rightarrow> ''Could not transform from ['' @ query_frame
                           @ ''] to Fixed Frame for an unknown reason'')
      | Some (t_query_fixed, o_query_fixed) \<Rightarrow>
          (case getTransform fm MAP_FRAME timestamp of
             None \<Rightarrow>
               Inl (case transformHasProblems fm query_frame timestamp of
                      Some error \<Rightarrow> error
                    | None \<Rightarrow> ''Could not transform from ['' @ MAP_FRAME
                                @ ''] to Fixed Frame for an unknown reason'')
           | Some (t_map_fixed, o_map_fixed) \<Rightarrow>
               Inr (rotateVector (Inverse o_map_fixed) t_query_fixed
                      + rotateVector (Inverse o_map_fixed) (- t_map_fixed),
                    quat_mul (Inverse o_map_fixed) o_query_fixed)))"

definition transformTileToMapFrame ::
  "'c Env \<Rightarrow> FrameManager \<Rightarrow> 'c AerialMapDisplay \<Rightarrow> 'c AerialMapDisplay" where
  "transformTileToMapFrame env fm s =
     (case ref_fix s of
        None \<Rightarrow> s
      | Some fix \<Rightarrow>
          (case getMapTransform fm (frame_id fix) (stamp fix) of
             Inl error \<Rightarrow> setStatus Error ''Transform'' error s
           | Inr (t_navsat_map, o_navsat_map) \<Rightarrow>
               (let centerTile = fromWGSCoordinate_double env (latitude fix, longitude fix) (zoom s);
                    centerTileOffsetX = fst centerTile - of_int \<lfloor>fst centerTile\<rfloor>;
                    centerTileOffsetY = 1 - (snd centerTile - of_int \<lfloor>snd centerTile\<rfloor>);
                    tile_w_h_m = getTileWH env s (latitude fix) (zoom s);
                    translationAerialMapToNavSatFix =
                      Vector3 (centerTileOffsetX * tile_w_h_m) (centerTileOffsetY * tile_w_h_m) 0;
                    translationNavSatFixToAerialMap = - translationAerialMapToNavSatFix
                in s\<lparr>t_centertile_map := t_navsat_map + translationNavSatFixToAerialMap\<rparr>)))"

definition transformMapTileToFixedFrame ::
  "FrameManager \<Rightarrow> 'c AerialMapDisplay \<Rightarrow> 'c AerialMapDisplay" where
  "transformMapTileToFixedFrame fm s =
     (case getTransform fm MAP_FRAME 0 of
        Some (t_fixed_map, o_fixed_map) \<Rightarrow>
          (let s1 = setStatus Ok ''Transform'' ''Transform OK'' s;
               t_centertile_fixed = t_fixed_map + rotateVector o_fixed_map (t_centertile_map s1)
           in s1\<lparr>scene_position := t_centertile_fixed, scene_orientation := o_fixed_map\<rparr>)
      | None \<Rightarrow>
          (case transformHasProblems fm MAP_FRAME 0 of
             Some error \<Rightarrow> setStatus Error ''Transform'' error s
           | None \<Rightarrow>
               setStatus Error ''Transform''
                 (''Could not transform from ['' @ MAP_FRAME @ ''] to Fixed Frame [''
                    @ fixed_frame s @ ''] for an unknown reason'') s))"

subsection \<open>The center tile\<close>

definition updateCenterTile ::
  "'c Env \<Rightarrow> FrameManager \<Rightarrow> NavSatFix \<Rightarrow> 'c AerialMapDisplay \<Rightarrow> 'c AerialMapDisplay" where
  "updateCenterTile env fm msg s =
     (if \<not> enabled s then s
      else
        (let tileCoordinates = fromWGSCoordinate_int env (latitude msg, longitude msg) (zoom s);
             newCenterTileID = \<lparr>tileServer = tile_url s, coord = tileCoordinates, tileZoom = zoom s\<rparr>;
             centerTileChanged =
               (case lastCenterTile s of None \<Rightarrow> True | Some t \<Rightarrow> \<not> (newCenterTileID = t))
         in if \<not> centerTileChanged then s
            else
              (let s1 = s\<lparr>lastCenterTile := Some newCenterTileID\<rparr>;
                   s2 = s1\<lparr>ref_fix := Some msg\<rparr>;
                   s3 = requestTileTextures env s2
               in transformTileToMapFrame env fm s3)))"

subsection \<open>Property changes\<close>

text \<open>
  Each handler reads the new value of its property; the value is an argument here.
\<close>

definition updateAlpha :: "real \<Rightarrow> 'c AerialMapDisplay \<Rightarrow> 'c AerialMapDisplay" where
  "updateAlpha a s =
     (if a = alpha s then s
      else (let s1 = s\<lparr>alpha := a\<rparr>
            in if \<not> enabled s1 then s1 else s1\<lparr>dirty := True\<rparr>))"

definition updateZoom ::
  "'c Env \<Rightarrow> FrameManager \<Rightarrow> int \<Rightarrow> 'c AerialMapDisplay \<Rightarrow> 'c AerialMapDisplay" where
  "updateZoom env fm z s =
     (if z = zoom s then s
      else (let s1 = s\<lparr>zoom := z\<rparr>
            in if \<not> enabled s1 then s1
               else (let s2 = createTileObjects s1
                     in case ref_fix s2 of
                          None \<Rightarrow> s2
                        | Some fix \<Rightarrow> updateCenterTile env fm fix s2)))"

subsection \<open>Assembling the scene\<close>

text \<open>
  The body of the inner loop for the tile \<open>(xx, yy)\<close>. The state of the loop is the
  list of objects, the position of the iterator \<^verbatim>\<open>it\<close> in it, and
  \<^verbatim>\<open>loadedAllTiles\<close>. Dereferencing the iterator past the end of the list, or
  \<^verbatim>\<open>ref_fix_\<close> when it is null, is undefined behaviour: the result is \<open>None\<close>.
\<close>

definition paintTile ::
  "'c Env \<Rightarrow> 'c AerialMapDisplay \<Rightarrow> TileId \<Rightarrow> NavSatFix \<Rightarrow> int \<Rightarrow> int \<Rightarrow> OgreTile
     \<Rightarrow> MapObject \<Rightarrow> MapObject" where
  "paintTile env s c fix xx yy tile obj =
     (let tile_w_h_m = getTileWH env s (latitude fix) (zoom s);
          px = of_int (xx - tile_x (coord c)) * tile_w_h_m;
          py = of_int (- (yy - tile_y (coord c))) * tile_w_h_m
      in obj\<lparr>visible := True,
             texture := Some (textureName tile),
             depthWrite := (if alpha s \<ge> 0.9998 then \<not> draw_under s else False),
             sceneBlending := (if alpha s \<ge> 0.9998 then SBT_REPLACE else SBT_TRANSPARENT_ALPHA),
             renderQueueGroup := (if draw_under s then RENDER_QUEUE_3 else RENDER_QUEUE_MAIN),
             alphaOperation := Some (alpha s),
             quad := [(Vector3 px py 0, 0, 0),
                      (Vector3 (px + tile_w_h_m) (py + tile_w_h_m) 0, 1, 1),
                      (Vector3 px (py + tile_w_h_m) 0, 0, 1),
                      (Vector3 px py 0, 0, 0),
                      (Vector3 (px + tile_w_h_m) py 0, 1, 0),
                      (Vector3 (px + tile_w_h_m) (py + tile_w_h_m) 0, 1, 1)]\<rparr>)"

definition tileStep ::
  "'c Env \<Rightarrow> 'c AerialMapDisplay \<Rightarrow> TileId \<Rightarrow> int \<Rightarrow> int
     \<Rightarrow> MapObject list \<times> nat \<times> bool \<Rightarrow> (MapObject list \<times> nat \<times> bool) option" where
  "tileStep env s c xx yy st =
     (case st of (objs, i, loadedAllTiles) \<Rightarrow>
        if length objs \<le> i then None
        else
          (let obj = objs ! i;
               toFind = \<lparr>tileServer = tileServer c, coord = \<lparr>tile_x = xx, tile_y = yy\<rparr>,
                         tileZoom = tileZoom c\<rparr>
           in case cache_ready env (tileCache s) toFind of
                None \<Rightarrow> Some (objs[i := obj\<lparr>visible := False\<rparr>], Suc i, False)
              | Some tile \<Rightarrow>
                  (case ref_fix s of
                     None \<Rightarrow> None
                   | Some fix \<Rightarrow>
                       Some (objs[i := paintTile env s c fix xx yy tile obj], Suc i,
                             loadedAllTiles))))"

text \<open>A \<^verbatim>\<open>for\<close> loop over the values of a list, stopping where the body is undefined.\<close>

fun forEach :: "('a \<Rightarrow> 'b \<Rightarrow> 'b option) \<Rightarrow> 'a list \<Rightarrow> 'b \<Rightarrow> 'b option" where
  "forEach body [] st = Some st"
| "forEach body (v # vs) st =
     (case body v st of None \<Rightarrow> None | Some st' \<Rightarrow> forEach body vs st')"

definition assembleLoops ::
  "'c Env \<Rightarrow> 'c AerialMapDisplay \<Rightarrow> TileId \<Rightarrow> Area
     \<Rightarrow> MapObject list \<times> nat \<times> bool \<Rightarrow> (MapObject list \<times> nat \<times> bool) option" where
  "assembleLoops env s c area st =
     forEach (\<lambda>xx. forEach (\<lambda>yy. tileStep env s c xx yy)
                      [tile_y (leftTop area) .. tile_y (rightBottom area)])
       [tile_x (leftTop area) .. tile_x (rightBottom area)] st"

definition assembleScene :: "'c Env \<Rightarrow> 'c AerialMapDisplay \<Rightarrow> 'c AerialMapDisplay option" where
  "assembleScene env s =
     (if \<not> enabled s \<or> \<not> dirty s then Some s
      else case lastCenterTile s of
             None \<Rightarrow> Some s
           | Some c \<Rightarrow>
               if objects s = [] then Some s
               else
                 (let s1 = s\<lparr>dirty := False\<rparr>;
                      area = mkArea env c (blocks s1)
                  in case assembleLoops env s1 c area (objects s1, 0, True) of
                       None \<Rightarrow> None
                     | Some (objs, i, loadedAllTiles) \<Rightarrow>
                         (let s2 = s1\<lparr>objects := objs\<rparr>;
                              s3 = (if \<not> loadedAllTiles then s2\<lparr>dirty := True\<rparr> else s2);
                              s4 = s3\<lparr>tileCache := cache_purge env (mkArea env c (blocks s3))
                                                     (tileCache s3)\<rparr>
                          in Some (checkRequestErrorRate env s4))))"

text \<open>The render update of the host, once per frame.\<close>

definition update :: "'c Env \<Rightarrow> FrameManager \<Rightarrow> 'c AerialMapDisplay \<Rightarrow> 'c AerialMapDisplay option" where
  "update env fm s =
     (if ref_fix s = None \<or> lastCenterTile s = None then Some s
      else case assembleScene env s of
             None \<Rightarrow> None
           | Some s' \<Rightarrow> Some (transformMapTileToFixedFrame fm s'))"

text \<open>The tiles of an area in the order the loops visit them.\<close>

definition areaTiles :: "Area \<Rightarrow> (int \<times> int) list" where
  "areaTiles area =
     concat (map (\<lambda>xx. map (\<lambda>yy. (xx, yy)) [tile_y (leftTop area) .. tile_y (rightBottom area)])
               [tile_x (leftTop area) .. tile_x (rightBottom area)])"

definition slotId :: "TileId \<Rightarrow> int \<times> int \<Rightarrow> TileId" where
  "slotId c p = \<lparr>tileServer = tileServer c, coord = \<lparr>tile_x = fst p, tile_y = snd p\<rparr>,
                tileZoom = tileZoom c\<rparr>"

subsection \<open>The other handlers\<close>

definition updateDrawUnder :: "bool \<Rightarrow> 'c AerialMapDisplay \<Rightarrow> 'c AerialMapDisplay" where
  "updateDrawUnder d s =
     (if d = draw_under s then s
      else (let s1 = s\<lparr>draw_under := d\<rparr>
            in if \<not> enabled s1 then s1 else s1\<lparr>dirty := True\<rparr>))"

definition updateTileUrl :: "'c Env \<Rightarrow> string \<Rightarrow> 'c AerialMapDisplay \<Rightarrow> 'c AerialMapDisplay" where
  "updateTileUrl env url s =
     (if url = tile_url s then s
      else (let s1 = s\<lparr>tile_url := url\<rparr>
            in if \<not> enabled s1 then s1 else requestTileTextures env s1))"

definition updateBlocks :: "'c Env \<Rightarrow> int \<Rightarrow> 'c AerialMapDisplay \<Rightarrow> 'c AerialMapDisplay" where
  "updateBlocks env b s =
     (if b = blocks s then s
      else (let s1 = s\<lparr>blocks := b\<rparr>
            in if \<not> enabled s1 then s1
               else requestTileTextures env (createTileObjects s1)))"

definition clearAll :: "'c AerialMapDisplay \<Rightarrow> 'c AerialMapDisplay" where
  "clearAll s =
     (let s1 = s\<lparr>ref_fix := None\<rparr>;
          s2 = s1\<lparr>lastCenterTile := None\<rparr>;
          s3 = destroyTileObjects s2
      in setStatus Warn ''Message'' ''No map received yet'' s3)"

definition unsubscribe :: "'c AerialMapDisplay \<Rightarrow> 'c AerialMapDisplay" where
  "unsubscribe s = s\<lparr>coord_sub := None\<rparr>"

text \<open>
  Subscribing may throw a \<^verbatim>\<open>ros::Exception\<close>; its message, if it does, is the first
  argument.
\<close>

definition subscribe :: "string option \<Rightarrow> 'c AerialMapDisplay \<Rightarrow> 'c AerialMapDisplay" where
  "subscribe failure s =
     (if \<not> enabled s then s
      else if topic s \<noteq> []
      then (case failure of
              None \<Rightarrow> setStatus Ok ''Topic'' ''OK'' (s\<lparr>coord_sub := Some (topic s)\<rparr>)
            | Some what \<Rightarrow> setStatus Error ''Topic'' (''Error subscribing: '' @ what) s)
      else s)"

definition onEnable :: "string option \<Rightarrow> 'c AerialMapDisplay \<Rightarrow> 'c AerialMapDisplay" where
  "onEnable failure s = subscribe failure (createTileObjects s)"

definition onDisable :: "'c AerialMapDisplay \<Rightarrow> 'c AerialMapDisplay" where
  "onDisable s = clearAll (unsubscribe s)"

definition updateTopic :: "string option \<Rightarrow> 'c AerialMapDisplay \<Rightarrow> 'c AerialMapDisplay" where
  "updateTopic failure s =
     (if \<not> enabled s then s
      else subscribe failure (createTileObjects (clearAll (unsubscribe s))))"

definition navFixCallback ::
  "'c Env \<Rightarrow> FrameManager \<Rightarrow> NavSatFix \<Rightarrow> 'c AerialMapDisplay \<Rightarrow> 'c AerialMapDisplay" where
  "navFixCallback env fm msg s =
     setStatus Ok ''Message'' ''NavSatFix okay'' (updateCenterTile env fm msg s)"

text \<open>
  \<^verbatim>\<open>reset\<close> calls \<^verbatim>\<open>Display::reset\<close> of the host, which clears the status
  entries, and then \<^verbatim>\<open>updateTopic\<close>.
\<close>

definition reset :: "string option \<Rightarrow> 'c AerialMapDisplay \<Rightarrow> 'c AerialMapDisplay" where
  "reset failure s = updateTopic failure (s\<lparr>status := Map.empty\<rparr>)"

subsection \<open>The displays the host can produce\<close>

text \<open>
  The host constructs the display disabled, without fix, center tile or objects. It then
  enables and disables it (setting what \<^verbatim>\<open>isEnabled()\<close> returns before it calls
  \<^verbatim>\<open>onEnable\<close> or \<^verbatim>\<open>onDisable\<close>), changes its properties, delivers position
  fixes and calls \<^verbatim>\<open>update\<close> for every frame. Between two of these calls the workers
  of the tile cache may change the cache in any way.
\<close>

inductive reachable :: "'c Env \<Rightarrow> 'c AerialMapDisplay \<Rightarrow> bool" for env :: "'c Env" where
  constructed:
    "\<not> enabled s \<Longrightarrow> ref_fix s = None \<Longrightarrow> lastCenterTile s = None \<Longrightarrow> objects s = []
       \<Longrightarrow> reachable env s"
| enable: "reachable env s \<Longrightarrow> \<not> enabled s \<Longrightarrow> reachable env (onEnable failure (s\<lparr>enabled := True\<rparr>))"
| disable: "reachable env s \<Longrightarrow> enabled s \<Longrightarrow> reachable env (onDisable (s\<lparr>enabled := False\<rparr>))"
| alpha_changed: "reachable env s \<Longrightarrow> reachable env (updateAlpha a s)"
| draw_under_changed: "reachable env s \<Longrightarrow> reachable env (updateDrawUnder d s)"
| tile_url_changed: "reachable env s \<Longrightarrow> reachable env (updateTileUrl env url s)"
| zoom_changed: "reachable env s \<Longrightarrow> reachable env (updateZoom env fm z s)"
| blocks_changed: "reachable env s \<Longrightarrow> reachable env (updateBlocks env b s)"
| topic_changed: "reachable env s \<Longrightarrow> reachable env (updateTopic failure (s\<lparr>topic := t\<rparr>))"
| was_reset: "reachable env s \<Longrightarrow> reachable env (reset failure s)"
| fix_received: "reachable env s \<Longrightarrow> reachable env (navFixCallback env fm msg s)"
| rendered: "reachable env s \<Longrightarrow> update env fm s = Some s' \<Longrightarrow> reachable env s'"
| cache_changed: "reachable env s \<Longrightarrow> reachable env (s\<lparr>tileCache := c\<rparr>)"

subsection \<open>The tile requests the display issues\<close>

text \<open>
  \<^verbatim>\<open>requestTileTextures\<close> is no slot of its own: the display calls it at three
  places, each behind the guards of its handler. A request is issued on the display that
  the handler has reached at the call: by \<^verbatim>\<open>updateTileUrl\<close> after it has stored a new
  URL (line 221), by \<^verbatim>\<open>updateBlocks\<close> after it has stored a new number of blocks and
  created the tile objects (line 278), and by \<^verbatim>\<open>updateCenterTile\<close> after it has stored
  a new center tile and the fix (line 403). Every handler has returned before the call if
  the display is not enabled.
\<close>

inductive requestIssued :: "'c Env \<Rightarrow> 'c AerialMapDisplay \<Rightarrow> bool" for env :: "'c Env" where
  by_updateTileUrl:
    "url \<noteq> tile_url s \<Longrightarrow> enabled s \<Longrightarrow> requestIssued env (s\<lparr>tile_url := url\<rparr>)"
| by_updateBlocks:
    "b \<noteq> blocks s \<Longrightarrow> enabled s \<Longrightarrow> requestIssued env (createTileObjects (s\<lparr>blocks := b\<rparr>))"
| by_updateCenterTile:
    "enabled s
     \<Longrightarrow> lastCenterTile s
          \<noteq> Some \<lparr>tileServer = tile_url s,
                   coord = fromWGSCoordinate_int env (latitude msg, longitude msg) (zoom s),
                   tileZoom = zoom s\<rparr>
     \<Longrightarrow> requestIssued env
           (s\<lparr>lastCenterTile :=
                Some \<lparr>tileServer = tile_url s,
                      coord = fromWGSCoordinate_int env (latitude msg, longitude msg) (zoom s),
                      tileZoom = zoom s\<rparr>,
              ref_fix := Some msg\<rparr>)"

text \<open>
  Modelled from the spec: what \<^verbatim>\<open>TileCache::request\<close>, which is not part of
  \<^verbatim>\<open>src/\<close>, does with an area whose tile source is the empty string. It fails
  (section 4.2: it signals \<^verbatim>\<open>InvalidSource\<close>), that is, it throws, and it dispatches
  no fetch: the cache is as before.
\<close>

definition rejectsEmptySource :: "'c Env \<Rightarrow> bool" where
  "rejectsEmptySource env =
     (\<forall>c b cache. tileServer c = []
        \<longrightarrow> (\<exists>what. cache_request env (mkArea env c b) cache = (Some what, cache)))"

text \<open>
  The stored center tile is consistent if it was derived at the zoom of the display, from
  a fix the display still has, while the display was enabled.
\<close>

definition centerTileConsistent :: "'c AerialMapDisplay \<Rightarrow> bool" where
  "centerTileConsistent s =
     (case lastCenterTile s of
        None \<Rightarrow> True
      | Some t \<Rightarrow> tileZoom t = zoom s \<and> ref_fix s \<noteq> None \<and> enabled s)"

subsection \<open>A concrete environment\<close>

text \<open>
  The theorems below hold for every environment. To run the display on concrete inputs,
  the collaborators are written out once, from the specification.
\<close>

text \<open>
  Modelled from the spec: \<^verbatim>\<open>fromWGSCoordinate<double>\<close> of the projection header,
  the spherical Web-Mercator projection in tile units at a zoom level
  (\<^verbatim>\<open>tileIndexFromGeo\<close>, section 4.1), without its range check.
\<close>

definition spec_tileIndexFromGeo :: "real \<times> real \<Rightarrow> int \<Rightarrow> real \<times> real" where
  "spec_tileIndexFromGeo p z =
     (let lat = fst p * pi / 180; n = 2 ^ nat z
      in (n * ((snd p + 180) / 360), n * (1 - ln (tan lat + 1 / cos lat) / pi) / 2))"

text \<open>
  Modelled from the spec: \<^verbatim>\<open>fromWGSCoordinate<int>\<close> of the projection header, the
  tile index floored (section 3, \<^verbatim>\<open>TileIndex\<close>).
\<close>

definition spec_tileIndexFloor :: "real \<times> real \<Rightarrow> int \<Rightarrow> TileCoordinate" where
  "spec_tileIndexFloor p z =
     \<lparr>tile_x = \<lfloor>fst (spec_tileIndexFromGeo p z)\<rfloor>, tile_y = \<lfloor>snd (spec_tileIndexFromGeo p z)\<rfloor>\<rparr>"

text \<open>
  Modelled from the spec: \<^verbatim>\<open>zoomToResolution\<close> of the projection header, the ground
  resolution in meters per pixel (\<^verbatim>\<open>groundResolution\<close>, section 4.1), with the
  latitude in degrees and the equatorial radius of WGS 84.
\<close>

definition EarthRadius :: real where
  "EarthRadius = 6378137"

definition spec_groundResolution :: "real \<Rightarrow> int \<Rightarrow> real" where
  "spec_groundResolution lat z = (2 * pi * EarthRadius * cos (lat * pi / 180)) / (256 * 2 ^ nat z)"

text \<open>
  Modelled from the spec: the constructor of \<^verbatim>\<open>Area\<close> from a center and a radius, a
  square of \<open>(2 * radius + 1)\<^sup>2\<close> tiles (section 3).
\<close>

definition spec_Area :: "TileId \<Rightarrow> int \<Rightarrow> Area" where
  "spec_Area c radius =
     \<lparr>leftTop = \<lparr>tile_x = tile_x (coord c) - radius, tile_y = tile_y (coord c) - radius\<rparr>,
      rightBottom = \<lparr>tile_x = tile_x (coord c) + radius, tile_y = tile_y (coord c) + radius\<rparr>,
      center = c\<rparr>"

text \<open>
  Modelled from the spec: the tile cache (\<^verbatim>\<open>TileCache\<close>, sections 3 and 4.2), as the
  state of every known tile and the counters of every tile source. The fetches themselves
  are not modelled: a dispatched fetch leaves its tile \<open>Loading\<close>.
\<close>

datatype TileState = Pending | Loading | Ready OgreTile | Failed string

record SourceStats =
  attempted :: nat
  failed :: nat

record TileCache =
  tiles :: "TileId \<Rightarrow> TileState option"
  stats :: "string \<Rightarrow> SourceStats"

definition inArea :: "Area \<Rightarrow> TileId \<Rightarrow> bool" where
  "inArea area t =
     (tileServer t = tileServer (center area) \<and> tileZoom t = tileZoom (center area)
      \<and> tile_x (leftTop area) \<le> tile_x (coord t) \<and> tile_x (coord t) \<le> tile_x (rightBottom area)
      \<and> tile_y (leftTop area) \<le> tile_y (coord t) \<and> tile_y (coord t) \<le> tile_y (rightBottom area))"

text \<open>
  Modelled from the spec: \<^verbatim>\<open>TileCache::request\<close>, which fails on an empty source and
  otherwise dispatches a fetch for every tile of the area that is neither ready nor loading.
\<close>

definition spec_request :: "Area \<Rightarrow> TileCache \<Rightarrow> string option \<times> TileCache" where
  "spec_request area cache =
     (if tileServer (center area) = [] then (Some ''InvalidSource'', cache)
      else (None,
            cache\<lparr>tiles := (\<lambda>t. if inArea area t
                                 then (case tiles cache t of
                                         Some (Ready tile) \<Rightarrow> Some (Ready tile)
                                       | _ \<Rightarrow> Some Loading)
                                 else tiles cache t)\<rparr>))"

text \<open>
  Modelled from the spec: \<^verbatim>\<open>TileCache::ready\<close>, a handle only for a tile whose state
  is \<open>Ready\<close>.
\<close>

definition spec_ready :: "TileCache \<Rightarrow> TileId \<Rightarrow> OgreTile option" where
  "spec_ready cache t = (case tiles cache t of Some (Ready tile) \<Rightarrow> Some tile | _ \<Rightarrow> None)"

text \<open>
  Modelled from the spec: \<^verbatim>\<open>TileCache::purge\<close>, which evicts every tile outside the
  area that is not loading.
\<close>

definition spec_purge :: "Area \<Rightarrow> TileCache \<Rightarrow> TileCache" where
  "spec_purge area cache =
     cache\<lparr>tiles := (\<lambda>t. if inArea area t then tiles cache t
                          else (case tiles cache t of Some Loading \<Rightarrow> Some Loading | _ \<Rightarrow> None))\<rparr>"

text \<open>
  Modelled from the spec: \<^verbatim>\<open>TileCache::getTileServerErrorRate\<close>, the share of failed
  fetches of a source, zero without attempts.
\<close>

definition spec_getErrorRate :: "TileCache \<Rightarrow> string \<Rightarrow> real" where
  "spec_getErrorRate cache source =
     (if attempted (stats cache source) = 0 then 0
      else real (failed (stats cache source)) / real (attempted (stats cache source)))"

definition spec_env :: "TileCache Env" where
  "spec_env =
     \<lparr>fromWGSCoordinate_int = spec_tileIndexFloor,
      fromWGSCoordinate_double = spec_tileIndexFromGeo,
      zoomToResolution = spec_groundResolution,
      mkArea = spec_Area,
      cache_request = spec_request,
      cache_ready = spec_ready,
      cache_purge = spec_purge,
      cache_getTileServerErrorRate = spec_getErrorRate\<rparr>"

subsection \<open>Concrete inputs\<close>

text \<open>
  Two fixes on the equator inside the same tile at zoom 16, that tile, a cache in which
  only the center tile is ready, and an enabled display with a grid of nine objects.
\<close>

definition fix0 :: NavSatFix where
  "fix0 = \<lparr>latitude = 0, longitude = 0.001, frame_id = ''gps'', stamp = 0\<rparr>"

definition fix1 :: NavSatFix where
  "fix1 = \<lparr>latitude = 0, longitude = 0.002, frame_id = ''gps'', stamp = 0\<rparr>"

definition tile0 :: TileId where
  "tile0 = \<lparr>tileServer = ''osm'', coord = \<lparr>tile_x = 32768, tile_y = 32768\<rparr>, tileZoom = 16\<rparr>"

definition cache0 :: TileCache where
  "cache0 =
     \<lparr>tiles = (\<lambda>t. if t = tile0 then Some (Ready (OgreTile ''tex0'')) else None),
      stats = (\<lambda>source. \<lparr>attempted = 0, failed = 0\<rparr>)\<rparr>"

definition cacheWith :: "nat \<Rightarrow> nat \<Rightarrow> TileCache" where
  "cacheWith n k = cache0\<lparr>stats := (\<lambda>source. \<lparr>attempted = n, failed = k\<rparr>)\<rparr>"

definition display0 :: "TileCache AerialMapDisplay" where
  "display0 =
     \<lparr>enabled = True, dirty = True, alpha = 0.7, draw_under = False, tile_url = ''osm'',
      zoom = 16, blocks = 1, ref_fix = Some fix0, lastCenterTile = Some tile0,
      objects = map newMapObject [0, 1, 2, 3, 4, 5, 6, 7, 8], count = 9, tileCache = cache0,
      t_centertile_map = Vector3 0 0 0, scene_position = Vector3 0 0 0,
      scene_orientation = Quaternion 1 0 0 0, fixed_frame = ''map'', topic = ''fix'',
      coord_sub = Some ''fix'', status = Map.empty\<rparr>"

text \<open>
  An enabled display that got its fix while the tile URL was empty: the stored center
  tile carries the empty tile source of that moment.
\<close>

definition stale0 :: "TileCache AerialMapDisplay" where
  "stale0 = display0\<lparr>tile_url := [], lastCenterTile := Some (tile0\<lparr>tileServer := []\<rparr>)\<rparr>"

text \<open>A display that has been disabled: no fix, no center tile, no objects, no tile URL.\<close>

definition disabled0 :: "TileCache AerialMapDisplay" where
  "disabled0 =
     \<lparr>enabled = False, dirty = False, alpha = 0.7, draw_under = False, tile_url = [],
      zoom = 16, blocks = 1, ref_fix = None, lastCenterTile = None,
      objects = [], count = 9, tileCache = cache0,
      t_centertile_map = Vector3 0 0 0, scene_position = Vector3 0 0 0,
      scene_orientation = Quaternion 1 0 0 0, fixed_frame = ''map'', topic = ''fix'',
      coord_sub = None, status = Map.empty\<rparr>"

text \<open>
  Frame managers: one that knows the frame of the fix and the map frame, one in which
  the map frame is turned by half a turn about the vertical axis, and one that knows
  no frame.
\<close>

definition fm0 :: FrameManager where
  "fm0 =
     \<lparr>getTransform = (\<lambda>frame t. if frame = ''gps'' then Some (Vector3 10 20 0, Quaternion 1 0 0 0)
                                else if frame = ''map'' then Some (Vector3 1 2 0, Quaternion 1 0 0 0)
                                else None),
      transformHasProblems = (\<lambda>frame t. None)\<rparr>"

definition fm_turned :: FrameManager where
  "fm_turned =
     \<lparr>getTransform = (\<lambda>frame t. if frame = ''map'' then Some (Vector3 1 2 0, Quaternion 0 0 0 1)
                                else None),
      transformHasProblems = (\<lambda>frame t. None)\<rparr>"

definition fm_none :: FrameManager where
  "fm_none =
     \<lparr>getTransform = (\<lambda>frame t. None),
      transformHasProblems = (\<lambda>frame t. Some ''Frame [gps] does not exist'')\<rparr>"

section \<open>Properties\<close>

subsection \<open>What the operations leave alone\<close>

lemma createLoop_frame:
  "createLoop n s = s\<lparr>objects := objects (createLoop n s), count := count (createLoop n s)\<rparr>"
proof (induction n arbitrary: s)
  case 0
  show ?case by simp
next
  case (Suc n)
  let ?s1 = "s\<lparr>objects := objects s @ [newMapObject (count s)], count := Suc (count s)\<rparr>"
  have "createLoop (Suc n) s = createLoop n ?s1" by simp
  also have "\<dots> = ?s1\<lparr>objects := objects (createLoop n ?s1), count := count (createLoop n ?s1)\<rparr>"
    by (rule Suc.IH)
  finally show ?case by simp
qed

lemma createTileObjects_frame:
  "createTileObjects s
     = s\<lparr>objects := objects (createTileObjects s), count := count (createTileObjects s)\<rparr>"
proof (cases "objects s = []")
  case True
  then show ?thesis
    using createLoop_frame [of "nat ((2 * blocks s + 1) * (2 * blocks s + 1))" s]
    by (simp add: createTileObjects_def)
next
  case False
  then show ?thesis
    using createLoop_frame [of "nat ((2 * blocks s + 1) * (2 * blocks s + 1))" "s\<lparr>objects := []\<rparr>"]
    by (simp add: createTileObjects_def destroyTileObjects_def)
qed

lemma createLoop_objects:
  "objects (createLoop n s) = objects s @ map newMapObject [count s ..< count s + n]"
proof (induction n arbitrary: s)
  case 0
  show ?case by simp
next
  case (Suc n)
  have "[count s ..< count s + Suc n] = count s # [Suc (count s) ..< Suc (count s) + n]"
    by (simp add: upt_conv_Cons)
  then show ?case by (simp add: Suc.IH)
qed

lemma createTileObjects_objects:
  "objects (createTileObjects s)
     = map newMapObject [count s ..< count s + nat ((2 * blocks s + 1) * (2 * blocks s + 1))]"
  by (simp add: createTileObjects_def destroyTileObjects_def createLoop_objects)

lemma createTileObjects_fields:
  "enabled (createTileObjects s) = enabled s"
  "ref_fix (createTileObjects s) = ref_fix s"
  "lastCenterTile (createTileObjects s) = lastCenterTile s"
  "zoom (createTileObjects s) = zoom s"
  "tile_url (createTileObjects s) = tile_url s"
  "blocks (createTileObjects s) = blocks s"
  by (subst createTileObjects_frame, simp)+

lemma requestTileTextures_fields:
  "objects (requestTileTextures env s) = objects s"
  "zoom (requestTileTextures env s) = zoom s"
  "enabled (requestTileTextures env s) = enabled s"
  "ref_fix (requestTileTextures env s) = ref_fix s"
  "lastCenterTile (requestTileTextures env s) = lastCenterTile s"
  "t_centertile_map (requestTileTextures env s) = t_centertile_map s"
  by (simp_all add: requestTileTextures_def setStatus_def split: option.splits prod.splits)

lemma transformTileToMapFrame_fields:
  "objects (transformTileToMapFrame env fm s) = objects s"
  "zoom (transformTileToMapFrame env fm s) = zoom s"
  "enabled (transformTileToMapFrame env fm s) = enabled s"
  "ref_fix (transformTileToMapFrame env fm s) = ref_fix s"
  "lastCenterTile (transformTileToMapFrame env fm s) = lastCenterTile s"
  "tileCache (transformTileToMapFrame env fm s) = tileCache s"
  "dirty (transformTileToMapFrame env fm s) = dirty s"
  by (simp_all add: transformTileToMapFrame_def setStatus_def Let_def
      split: option.splits sum.splits prod.splits)

lemma updateCenterTile_fields:
  "objects (updateCenterTile env fm msg s) = objects s"
  "zoom (updateCenterTile env fm msg s) = zoom s"
  "enabled (updateCenterTile env fm msg s) = enabled s"
  by (simp_all add: updateCenterTile_def Let_def requestTileTextures_fields
      transformTileToMapFrame_fields)

subsection \<open>The lookup of the map transform\<close>

text \<open>The lookup fails exactly when one of the two lookups of the frame manager fails.\<close>

lemma getMapTransform_fails_iff:
  "(\<exists>error. getMapTransform fm query_frame timestamp = Inl error)
     \<longleftrightarrow> (getTransform fm query_frame timestamp = None
          \<or> getTransform fm MAP_FRAME timestamp = None)"
  by (auto simp: getMapTransform_def split: option.splits)

lemma getMapTransform_fm_none:
  "getMapTransform fm_none (frame_id fix0) (stamp fix0) = Inl ''Frame [gps] does not exist''"
  by (simp add: getMapTransform_def fm_none_def)

lemma getMapTransform_fm0:
  "getMapTransform fm0 (frame_id fix0) (stamp fix0) = Inr (Vector3 9 18 0, Quaternion 1 0 0 0)"
  by (simp add: getMapTransform_def fm0_def fix0_def MAP_FRAME_def Inverse_def rotateVector_def
      crossProduct_def scale_def quat_mul_def plus_Vector3_def uminus_Vector3_def Let_def)

lemma fromWGS_fix0:
  "fromWGSCoordinate_double spec_env (latitude fix0, longitude fix0) (zoom display0)
     = (184321024 / 5625, 32768)"
  by (simp add: spec_env_def spec_tileIndexFromGeo_def fix0_def display0_def Let_def)

subsection \<open>The anchor of the slow path\<close>

text \<open>
  C1: for every position fix and zoom level, the anchor that \<^verbatim>\<open>transformTileToMapFrame\<close>
  stores is the translation of the fix's frame in the map frame minus the offset of the
  fix inside its tile in meters: the fractional part of the tile index in x, one minus the
  fractional part in y, both times the tile edge at the latitude of the fix and the zoom
  of the display, and zero in z.
\<close>

theorem transformTileToMapFrame_anchor:
  assumes "ref_fix s = Some fix"
    and "getMapTransform fm (frame_id fix) (stamp fix) = Inr (t_navsat_map, o_navsat_map)"
    and "fromWGSCoordinate_double env (latitude fix, longitude fix) (zoom s)
           = (tileIndex_x, tileIndex_y)"
  shows "t_centertile_map (transformTileToMapFrame env fm s)
           = t_navsat_map
             - Vector3 (frac tileIndex_x * getTileWH env s (latitude fix) (zoom s))
                       ((1 - frac tileIndex_y) * getTileWH env s (latitude fix) (zoom s))
                       0"
  using assms by (simp add: transformTileToMapFrame_def Let_def frac_def)

theorem transformTileToMapFrame_anchor_witness:
  "ref_fix display0 = Some fix0
   \<and> getMapTransform fm0 (frame_id fix0) (stamp fix0) = Inr (Vector3 9 18 0, Quaternion 1 0 0 0)
   \<and> fromWGSCoordinate_double spec_env (latitude fix0, longitude fix0) (zoom display0)
       = (184321024 / 5625, 32768)
   \<and> t_centertile_map (transformTileToMapFrame spec_env fm0 display0)
       = Vector3 9 18 0
         - Vector3 (1024 / 5625 * getTileWH spec_env display0 0 16)
                   (getTileWH spec_env display0 0 16) 0"
proof -
  have rf: "ref_fix display0 = Some fix0"
    by (simp add: display0_def)
  have fr: "frac (184321024 / 5625 :: real) = 1024 / 5625" "frac (32768 :: real) = 0"
    by (simp_all add: frac_def)
  show ?thesis
    using transformTileToMapFrame_anchor [OF rf getMapTransform_fm0 fromWGS_fix0]
      rf getMapTransform_fm0 fromWGS_fix0 fr
    by (simp add: fix0_def display0_def)
qed

subsection \<open>The composition of the fast path\<close>

text \<open>
  C2: for every stored anchor and every successful lookup of the map frame in the fixed
  frame, \<^verbatim>\<open>transformMapTileToFixedFrame\<close> puts the scene node at the translation of
  the lookup plus the anchor rotated by the rotation of the lookup, and gives it that
  rotation as orientation. Hence two lookups with the same translation put the scene node
  at positions whose difference is the difference of the two rotated anchors.
\<close>

theorem transformMapTileToFixedFrame_composition:
  assumes "getTransform fm MAP_FRAME 0 = Some (translation, rotation)"
    and "getTransform fm' MAP_FRAME 0 = Some (translation, rotation')"
  shows "scene_position (transformMapTileToFixedFrame fm s)
           = translation + rotateVector rotation (t_centertile_map s)
       \<and> scene_orientation (transformMapTileToFixedFrame fm s) = rotation
       \<and> scene_position (transformMapTileToFixedFrame fm s)
           - scene_position (transformMapTileToFixedFrame fm' s)
           = rotateVector rotation (t_centertile_map s) - rotateVector rotation' (t_centertile_map s)"
  using assms by (simp add: transformMapTileToFixedFrame_def setStatus_def Let_def)

theorem transformMapTileToFixedFrame_composition_witness:
  "getTransform fm0 MAP_FRAME 0 = Some (Vector3 1 2 0, Quaternion 1 0 0 0)
   \<and> getTransform fm_turned MAP_FRAME 0 = Some (Vector3 1 2 0, Quaternion 0 0 0 1)
   \<and> scene_position (transformMapTileToFixedFrame fm0 (display0\<lparr>t_centertile_map := Vector3 3 4 0\<rparr>))
       = Vector3 4 6 0
   \<and> scene_position (transformMapTileToFixedFrame fm_turned (display0\<lparr>t_centertile_map := Vector3 3 4 0\<rparr>))
       = Vector3 (- 2) (- 2) 0
   \<and> scene_orientation (transformMapTileToFixedFrame fm_turned (display0\<lparr>t_centertile_map := Vector3 3 4 0\<rparr>))
       = Quaternion 0 0 0 1"
proof -
  have a: "getTransform fm0 MAP_FRAME 0 = Some (Vector3 1 2 0, Quaternion 1 0 0 0)"
    by (simp add: fm0_def MAP_FRAME_def)
  have b: "getTransform fm_turned MAP_FRAME 0 = Some (Vector3 1 2 0, Quaternion 0 0 0 1)"
    by (simp add: fm_turned_def MAP_FRAME_def)
  show ?thesis
    using transformMapTileToFixedFrame_composition
            [OF a b, of "display0\<lparr>t_centertile_map := Vector3 3 4 0\<rparr>"]
      transformMapTileToFixedFrame_composition
            [OF b a, of "display0\<lparr>t_centertile_map := Vector3 3 4 0\<rparr>"]
      a b
    by (simp add: rotateVector_def crossProduct_def scale_def plus_Vector3_def Let_def)
qed

subsection \<open>The status of the tile requests\<close>

text \<open>
  C3: whenever \<^verbatim>\<open>checkRequestErrorRate\<close> recomputes the status of the tile requests,
  the status is an error saying that few or no tiles were received if the error rate of
  the tile source is above 0.95, a warning about possible throttling if the rate is above
  0.3 but not above 0.95, and OK otherwise.
\<close>

theorem checkRequestErrorRate_status:
  fixes env :: "'c Env" and s :: "'c AerialMapDisplay"
  defines "errorRate \<equiv> cache_getTileServerErrorRate env (tileCache s) (tile_url s)"
  shows "(errorRate > 0.95 \<longrightarrow>
            status (checkRequestErrorRate env s) ''TileRequest''
              = Some (Error, ''Few or no tiles received''))
       \<and> (errorRate > 0.3 \<and> \<not> errorRate > 0.95 \<longrightarrow>
            status (checkRequestErrorRate env s) ''TileRequest''
              = Some (Warn, ''Not all requested tiles have been received. Possibly the server is throttling?''))
       \<and> (\<not> errorRate > 0.3 \<longrightarrow>
            status (checkRequestErrorRate env s) ''TileRequest'' = Some (Ok, ''OK''))"
  unfolding errorRate_def by (simp add: checkRequestErrorRate_def setStatus_def Let_def)

theorem checkRequestErrorRate_status_witness:
  "cache_getTileServerErrorRate spec_env (cacheWith 10 10) ''osm'' = 1
   \<and> status (checkRequestErrorRate spec_env (display0\<lparr>tileCache := cacheWith 10 10\<rparr>)) ''TileRequest''
       = Some (Error, ''Few or no tiles received'')
   \<and> cache_getTileServerErrorRate spec_env (cacheWith 10 5) ''osm'' = 1 / 2
   \<and> status (checkRequestErrorRate spec_env (display0\<lparr>tileCache := cacheWith 10 5\<rparr>)) ''TileRequest''
       = Some (Warn, ''Not all requested tiles have been received. Possibly the server is throttling?'')
   \<and> cache_getTileServerErrorRate spec_env (cacheWith 10 3) ''osm'' = 3 / 10
   \<and> status (checkRequestErrorRate spec_env (display0\<lparr>tileCache := cacheWith 10 3\<rparr>)) ''TileRequest''
       = Some (Ok, ''OK'')"
  using checkRequestErrorRate_status [of spec_env "display0\<lparr>tileCache := cacheWith 10 10\<rparr>"]
        checkRequestErrorRate_status [of spec_env "display0\<lparr>tileCache := cacheWith 10 5\<rparr>"]
        checkRequestErrorRate_status [of spec_env "display0\<lparr>tileCache := cacheWith 10 3\<rparr>"]
  by (simp add: spec_env_def spec_getErrorRate_def cacheWith_def)

subsection \<open>A failed lookup on the slow path\<close>

text \<open>
  C4: for every position fix, if the lookup of the fix's frame in the map frame fails,
  \<^verbatim>\<open>transformTileToMapFrame\<close> reports the error as the status of the transform and
  returns; the stored anchor \<^verbatim>\<open>t_centertile_map\<close> is the one from before.
\<close>

theorem transformTileToMapFrame_lookup_fails:
  assumes "ref_fix s = Some fix"
    and "getMapTransform fm (frame_id fix) (stamp fix) = Inl error"
  shows "transformTileToMapFrame env fm s = setStatus Error ''Transform'' error s
       \<and> status (transformTileToMapFrame env fm s) ''Transform'' = Some (Error, error)
       \<and> t_centertile_map (transformTileToMapFrame env fm s) = t_centertile_map s"
  using assms by (simp add: transformTileToMapFrame_def setStatus_def)

theorem transformTileToMapFrame_lookup_fails_witness:
  "ref_fix display0 = Some fix0
   \<and> getMapTransform fm_none (frame_id fix0) (stamp fix0) = Inl ''Frame [gps] does not exist''
   \<and> status (transformTileToMapFrame spec_env fm_none display0) ''Transform''
       = Some (Error, ''Frame [gps] does not exist'')
   \<and> t_centertile_map (transformTileToMapFrame spec_env fm_none display0) = Vector3 0 0 0"
proof -
  have rf: "ref_fix display0 = Some fix0"
    by (simp add: display0_def)
  have anchor: "t_centertile_map display0 = Vector3 0 0 0"
    by (simp add: display0_def)
  show ?thesis
    using transformTileToMapFrame_lookup_fails
            [OF rf getMapTransform_fm_none, of spec_env, THEN conjunct2]
      rf getMapTransform_fm_none anchor
    by simp
qed

subsection \<open>A tile request with an empty tile source\<close>

text \<open>The three handlers call \<^verbatim>\<open>requestTileTextures\<close> on issued requests only.\<close>

lemma requestIssued_enabled: "requestIssued env s \<Longrightarrow> enabled s"
  by (induction rule: requestIssued.induct) (simp_all add: createTileObjects_fields)

lemma updateTileUrl_call:
  "updateTileUrl env url s
     = (if url \<noteq> tile_url s \<and> enabled s then requestTileTextures env (s\<lparr>tile_url := url\<rparr>)
        else s\<lparr>tile_url := url\<rparr>)"
  by (simp add: updateTileUrl_def Let_def)

lemma updateBlocks_call:
  "updateBlocks env b s
     = (if b \<noteq> blocks s \<and> enabled s
        then requestTileTextures env (createTileObjects (s\<lparr>blocks := b\<rparr>))
        else s\<lparr>blocks := b\<rparr>)"
  by (simp add: updateBlocks_def Let_def)

lemma updateCenterTile_call:
  "updateCenterTile env fm msg s
     = (if enabled s
          \<and> lastCenterTile s
               \<noteq> Some \<lparr>tileServer = tile_url s,
                        coord = fromWGSCoordinate_int env (latitude msg, longitude msg) (zoom s),
                        tileZoom = zoom s\<rparr>
        then transformTileToMapFrame env fm
               (requestTileTextures env
                  (s\<lparr>lastCenterTile :=
                       Some \<lparr>tileServer = tile_url s,
                             coord = fromWGSCoordinate_int env (latitude msg, longitude msg) (zoom s),
                             tileZoom = zoom s\<rparr>,
                     ref_fix := Some msg\<rparr>))
        else s)"
  by (auto simp: updateCenterTile_def Let_def split: option.splits)

lemma rejectsEmptySource_spec_env: "rejectsEmptySource spec_env"
  by (simp add: rejectsEmptySource_def spec_env_def spec_request_def spec_Area_def)

lemma requestIssued_empty_url: "requestIssued spec_env (display0\<lparr>tile_url := []\<rparr>)"
proof -
  have "[] \<noteq> tile_url display0" and "enabled display0"
    by (simp_all add: display0_def)
  then show ?thesis by (rule by_updateTileUrl)
qed

lemma requestIssued_stale: "requestIssued spec_env (stale0\<lparr>tile_url := ''osm''\<rparr>)"
proof -
  have "''osm'' \<noteq> tile_url stale0" and "enabled stale0"
    by (simp_all add: stale0_def display0_def)
  then show ?thesis by (rule by_updateTileUrl)
qed

text \<open>
  C5: every tile request issued with an empty tile source string fails: an error status
  of the tile requests is reported, the request is dropped (the display is otherwise as
  before, and the dirty flag is not set), and no fetch is dispatched (the cache is as
  before). The tile source of a request is empty when the tile URL of the display is:
  then \<^verbatim>\<open>requestTileTextures\<close> returns before it calls the cache. It is also empty
  when the URL has been set since but the stored center tile, which is what the request
  names, still carries an empty source: then the cache is called, and the request fails
  in the cache, which rejects an empty source; the display catches the exception and
  reports it.
\<close>

theorem requestTileTextures_empty_source:
  assumes "requestIssued env s"
  shows "(tile_url s = [] \<longrightarrow>
            requestTileTextures env s = setStatus Error ''TileRequest'' ''Tile URL is not set'' s)
       \<and> (tile_url s \<noteq> [] \<and> lastCenterTile s = Some c \<and> tileServer c = []
            \<and> rejectsEmptySource env \<longrightarrow>
            (\<exists>what. requestTileTextures env s = setStatus Error ''TileRequest'' what s))
       \<and> (tile_url s = []
            \<or> lastCenterTile s = Some c \<and> tileServer c = [] \<and> rejectsEmptySource env \<longrightarrow>
            (\<exists>what. status (requestTileTextures env s) ''TileRequest'' = Some (Error, what))
            \<and> tileCache (requestTileTextures env s) = tileCache s
            \<and> dirty (requestTileTextures env s) = dirty s)"
proof -
  have en: "enabled s"
    using assms by (rule requestIssued_enabled)
  have url: "requestTileTextures env s = setStatus Error ''TileRequest'' ''Tile URL is not set'' s"
    if "tile_url s = []"
    using that en by (simp add: requestTileTextures_def)
  have stale: "\<exists>what. requestTileTextures env s = setStatus Error ''TileRequest'' what s"
    if "tile_url s \<noteq> []" and "lastCenterTile s = Some c" and "tileServer c = []"
      and "rejectsEmptySource env"
  proof -
    from that(3,4) obtain what where
      "cache_request env (mkArea env c (blocks s)) (tileCache s) = (Some what, tileCache s)"
      unfolding rejectsEmptySource_def by blast
    then have "requestTileTextures env s = setStatus Error ''TileRequest'' what s"
      using that(1,2) en by (simp add: requestTileTextures_def)
    then show ?thesis by blast
  qed
  have either: "\<exists>what. requestTileTextures env s = setStatus Error ''TileRequest'' what s"
    if "tile_url s = [] \<or> lastCenterTile s = Some c \<and> tileServer c = [] \<and> rejectsEmptySource env"
    using that url stale by (cases "tile_url s = []") auto
  have summary: "(\<exists>what. status (requestTileTextures env s) ''TileRequest'' = Some (Error, what))
      \<and> tileCache (requestTileTextures env s) = tileCache s
      \<and> dirty (requestTileTextures env s) = dirty s"
    if "tile_url s = [] \<or> lastCenterTile s = Some c \<and> tileServer c = [] \<and> rejectsEmptySource env"
  proof -
    from either [OF that] obtain what where
      "requestTileTextures env s = setStatus Error ''TileRequest'' what s"
      by blast
    then show ?thesis by (simp add: setStatus_def)
  qed
  from url stale summary show ?thesis by blast
qed

theorem requestTileTextures_empty_source_witness:
  "requestIssued spec_env (display0\<lparr>tile_url := []\<rparr>)
   \<and> tile_url (display0\<lparr>tile_url := []\<rparr>) = []
   \<and> status (requestTileTextures spec_env (display0\<lparr>tile_url := []\<rparr>)) ''TileRequest''
       = Some (Error, ''Tile URL is not set'')
   \<and> tileCache (requestTileTextures spec_env (display0\<lparr>tile_url := []\<rparr>)) = cache0
   \<and> requestIssued spec_env (stale0\<lparr>tile_url := ''osm''\<rparr>)
   \<and> tile_url (stale0\<lparr>tile_url := ''osm''\<rparr>) = ''osm''
   \<and> lastCenterTile (stale0\<lparr>tile_url := ''osm''\<rparr>) = Some (tile0\<lparr>tileServer := []\<rparr>)
   \<and> tileServer (tile0\<lparr>tileServer := []\<rparr>) = []
   \<and> rejectsEmptySource spec_env
   \<and> (\<exists>what. status (requestTileTextures spec_env (stale0\<lparr>tile_url := ''osm''\<rparr>)) ''TileRequest''
                = Some (Error, what))
   \<and> tileCache (requestTileTextures spec_env (stale0\<lparr>tile_url := ''osm''\<rparr>)) = cache0
   \<and> dirty (requestTileTextures spec_env (stale0\<lparr>tile_url := ''osm''\<rparr>))
       = dirty (stale0\<lparr>tile_url := ''osm''\<rparr>)"
proof -
  let ?a = "display0\<lparr>tile_url := []\<rparr>"
  let ?b = "stale0\<lparr>tile_url := ''osm''\<rparr>"
  have a: "tile_url ?a = []" "tileCache ?a = cache0"
    by (simp_all add: display0_def)
  have b: "tile_url ?b = ''osm''" "lastCenterTile ?b = Some (tile0\<lparr>tileServer := []\<rparr>)"
    "tileServer (tile0\<lparr>tileServer := []\<rparr>) = []" "tileCache ?b = cache0"
    by (simp_all add: stale0_def display0_def)
  note first = requestTileTextures_empty_source [OF requestIssued_empty_url]
  note second = requestTileTextures_empty_source
                  [OF requestIssued_stale, where c = "tile0\<lparr>tileServer := []\<rparr>"]
  have one: "status (requestTileTextures spec_env ?a) ''TileRequest''
               = Some (Error, ''Tile URL is not set'')
             \<and> tileCache (requestTileTextures spec_env ?a) = cache0"
    using first a by (simp add: setStatus_def)
  have two: "(\<exists>what. status (requestTileTextures spec_env ?b) ''TileRequest'' = Some (Error, what))
             \<and> tileCache (requestTileTextures spec_env ?b) = cache0
             \<and> dirty (requestTileTextures spec_env ?b) = dirty ?b"
    using second [THEN conjunct2, THEN conjunct2] b rejectsEmptySource_spec_env by simp
  from one two a b requestIssued_empty_url requestIssued_stale rejectsEmptySource_spec_env
  show ?thesis by simp
qed

subsection \<open>The loops of the scene assembly\<close>

text \<open>The two nested loops visit the tiles of the area in the order of \<open>areaTiles\<close>.\<close>

lemma forEach_append:
  "forEach f (xs @ ys) st = (case forEach f xs st of None \<Rightarrow> None | Some st' \<Rightarrow> forEach f ys st')"
  by (induction xs arbitrary: st) (auto split: option.splits)

lemma forEach_map: "forEach f (map h xs) st = forEach (\<lambda>v. f (h v)) xs st"
  by (induction xs arbitrary: st) (auto split: option.splits)

lemma forEach_nested:
  "forEach (\<lambda>v. forEach (g v) ws) vs st
     = forEach (\<lambda>p. g (fst p) (snd p)) (concat (map (\<lambda>v. map (\<lambda>w. (v, w)) ws) vs)) st"
  by (induction vs arbitrary: st) (auto simp: forEach_append forEach_map split: option.splits)

lemma assembleLoops_flat:
  "assembleLoops env s c area st
     = forEach (\<lambda>p. tileStep env s c (fst p) (snd p)) (areaTiles area) st"
  by (simp add: assembleLoops_def areaTiles_def forEach_nested)

lemma tileStep_Some:
  assumes "tileStep env s c xx yy (objs, i, l) = Some (objs1, i1, l1)"
  shows "i < length objs \<and> i1 = Suc i \<and> length objs1 = length objs
       \<and> (l1 \<longleftrightarrow> l \<and> cache_ready env (tileCache s) (slotId c (xx, yy)) \<noteq> None)
       \<and> (\<forall>j. j \<noteq> i \<longrightarrow> objs1 ! j = objs ! j)
       \<and> (case cache_ready env (tileCache s) (slotId c (xx, yy)) of
             None \<Rightarrow> objs1 ! i = (objs ! i)\<lparr>visible := False\<rparr>
           | Some tile \<Rightarrow> (\<exists>fix. ref_fix s = Some fix
                            \<and> objs1 ! i = paintTile env s c fix xx yy tile (objs ! i)))"
  using assms
  by (auto simp: tileStep_def slotId_def Let_def split: if_splits option.splits)

lemma forEach_tileStep:
  assumes "forEach (\<lambda>p. tileStep env s c (fst p) (snd p)) ps (objs, i, l) = Some (objs', i', l')"
    and "i \<le> length objs"
  shows "i' = i + length ps \<and> length objs' = length objs \<and> i + length ps \<le> length objs
       \<and> (l' \<longleftrightarrow> l \<and> (\<forall>p \<in> set ps. cache_ready env (tileCache s) (slotId c p) \<noteq> None))
       \<and> (\<forall>j < i. objs' ! j = objs ! j)
       \<and> (\<forall>k < length ps.
             case cache_ready env (tileCache s) (slotId c (ps ! k)) of
               None \<Rightarrow> objs' ! (i + k) = (objs ! (i + k))\<lparr>visible := False\<rparr>
             | Some tile \<Rightarrow> (\<exists>fix. ref_fix s = Some fix
                              \<and> objs' ! (i + k)
                                  = paintTile env s c fix (fst (ps ! k)) (snd (ps ! k)) tile
                                      (objs ! (i + k))))"
  using assms
proof (induction ps arbitrary: objs i l)
  case Nil
  then show ?case by simp
next
  case (Cons p ps)
  from Cons.prems obtain objs1 i1 l1 where
    step: "tileStep env s c (fst p) (snd p) (objs, i, l) = Some (objs1, i1, l1)"
    and rest: "forEach (\<lambda>p. tileStep env s c (fst p) (snd p)) ps (objs1, i1, l1) = Some (objs', i', l')"
    by (auto split: option.splits)
  note s1 = tileStep_Some [OF step]
  have i1: "i1 = Suc i" using s1 by simp
  have "i1 \<le> length objs1" using s1 by simp
  note ih = Cons.IH [OF rest this]
  have a: "i' = i + length (p # ps)" using ih i1 by simp
  have b: "length objs' = length objs" using ih s1 by simp
  have c: "i + length (p # ps) \<le> length objs" using ih s1 by simp
  have d: "l' \<longleftrightarrow> l \<and> (\<forall>q \<in> set (p # ps). cache_ready env (tileCache s) (slotId c q) \<noteq> None)"
    using ih s1 by auto
  have e: "\<forall>j < i. objs' ! j = objs ! j" using ih s1 by auto
  have here: "objs' ! i = objs1 ! i" using ih i1 by simp
  have f: "\<forall>k < length (p # ps).
             case cache_ready env (tileCache s) (slotId c ((p # ps) ! k)) of
               None \<Rightarrow> objs' ! (i + k) = (objs ! (i + k))\<lparr>visible := False\<rparr>
             | Some tile \<Rightarrow> (\<exists>fix. ref_fix s = Some fix
                              \<and> objs' ! (i + k)
                                  = paintTile env s c fix (fst ((p # ps) ! k)) (snd ((p # ps) ! k)) tile
                                      (objs ! (i + k)))"
  proof (intro allI impI)
    fix k assume k: "k < length (p # ps)"
    show "case cache_ready env (tileCache s) (slotId c ((p # ps) ! k)) of
               None \<Rightarrow> objs' ! (i + k) = (objs ! (i + k))\<lparr>visible := False\<rparr>
             | Some tile \<Rightarrow> (\<exists>fix. ref_fix s = Some fix
                              \<and> objs' ! (i + k)
                                  = paintTile env s c fix (fst ((p # ps) ! k)) (snd ((p # ps) ! k)) tile
                                      (objs ! (i + k)))"
    proof (cases k)
      case 0
      then show ?thesis using s1 here by (simp split: option.splits)
    next
      case (Suc k')
      then have k': "k' < length ps" using k by simp
      have idx: "i1 + k' = i + k" using i1 Suc by simp
      have same: "objs1 ! (i + k) = objs ! (i + k)" using s1 Suc by simp
      have tile: "ps ! k' = (p # ps) ! k" using Suc by simp
      from ih k' have "case cache_ready env (tileCache s) (slotId c (ps ! k')) of
               None \<Rightarrow> objs' ! (i1 + k') = (objs1 ! (i1 + k'))\<lparr>visible := False\<rparr>
             | Some tile \<Rightarrow> (\<exists>fix. ref_fix s = Some fix
                              \<and> objs' ! (i1 + k')
                                  = paintTile env s c fix (fst (ps ! k')) (snd (ps ! k')) tile
                                      (objs1 ! (i1 + k')))"
        by blast
      then show ?thesis by (simp only: idx same tile)
    qed
  qed
  from a b c d e f show ?case by blast
qed

lemma forEach_tileStep_defined:
  assumes "i + length ps \<le> length objs" and "ref_fix s \<noteq> None"
  shows "forEach (\<lambda>p. tileStep env s c (fst p) (snd p)) ps (objs, i, l) \<noteq> None"
  using assms
proof (induction ps arbitrary: objs i l)
  case Nil
  then show ?case by simp
next
  case (Cons p ps)
  from Cons.prems have "i < length objs" by simp
  with Cons.prems(2) have
    "\<exists>objs1 l1. tileStep env s c (fst p) (snd p) (objs, i, l) = Some (objs1, Suc i, l1)
        \<and> length objs1 = length objs"
    by (cases "cache_ready env (tileCache s)
                 \<lparr>tileServer = tileServer c, coord = \<lparr>tile_x = fst p, tile_y = snd p\<rparr>,
                  tileZoom = tileZoom c\<rparr>")
       (auto simp: tileStep_def Let_def)
  then obtain objs1 l1 where
    step: "tileStep env s c (fst p) (snd p) (objs, i, l) = Some (objs1, Suc i, l1)"
    and len: "length objs1 = length objs"
    by blast
  from Cons.prems len have "Suc i + length ps \<le> length objs1" by simp
  from Cons.IH [OF this Cons.prems(2)] step show ?case by simp
qed

lemma checkRequestErrorRate_fields:
  "objects (checkRequestErrorRate env s) = objects s"
  "dirty (checkRequestErrorRate env s) = dirty s"
  "enabled (checkRequestErrorRate env s) = enabled s"
  "lastCenterTile (checkRequestErrorRate env s) = lastCenterTile s"
  "ref_fix (checkRequestErrorRate env s) = ref_fix s"
  "zoom (checkRequestErrorRate env s) = zoom s"
  by (simp_all add: checkRequestErrorRate_def setStatus_def Let_def)

lemma assembleScene_pass:
  assumes "enabled s" and "dirty s" and "lastCenterTile s = Some c" and "objects s \<noteq> []"
    and "assembleScene env s = Some s'"
  shows "\<exists>objs i l.
           forEach (\<lambda>p. tileStep env (s\<lparr>dirty := False\<rparr>) c (fst p) (snd p))
             (areaTiles (mkArea env c (blocks s))) (objects s, 0, True) = Some (objs, i, l)
           \<and> objects s' = objs \<and> dirty s' = (\<not> l) \<and> enabled s' = enabled s
           \<and> lastCenterTile s' = lastCenterTile s"
  using assms
  by (auto simp: assembleScene_def assembleLoops_flat Let_def checkRequestErrorRate_fields
      split: option.splits if_splits)

lemma assembleScene_defined:
  assumes "length (areaTiles (mkArea env c (blocks s))) \<le> length (objects s)"
    and "lastCenterTile s = Some c" and "ref_fix s \<noteq> None"
  shows "\<exists>s'. assembleScene env s = Some s'"
proof -
  have "forEach (\<lambda>p. tileStep env (s\<lparr>dirty := False\<rparr>) c (fst p) (snd p))
          (areaTiles (mkArea env c (blocks s))) (objects s, 0, True) \<noteq> None"
    using assms by (intro forEach_tileStep_defined) simp_all
  then show ?thesis
    using assms(2)
    by (auto simp: assembleScene_def assembleLoops_flat Let_def split: option.splits)
qed

lemma areaTiles_display0:
  "areaTiles (mkArea spec_env tile0 (blocks display0))
     = [(32767, 32767), (32767, 32768), (32767, 32769),
        (32768, 32767), (32768, 32768), (32768, 32769),
        (32769, 32767), (32769, 32768), (32769, 32769)]"
  by (simp add: areaTiles_def spec_env_def spec_Area_def tile0_def display0_def)

lemma display0_runs:
  "enabled display0" "dirty display0" "lastCenterTile display0 = Some tile0" "objects display0 \<noteq> []"
  "length (objects display0) = 9" "ref_fix display0 \<noteq> None"
  by (simp_all add: display0_def)

lemma ready_display0:
  "cache_ready spec_env (tileCache display0) (slotId tile0 p)
     = (if p = (32768, 32768) then Some (OgreTile ''tex0'') else None)"
  by (cases p) (auto simp: spec_env_def spec_ready_def display0_def cache0_def slotId_def tile0_def)

subsection \<open>The tile slots after an assembly pass\<close>

text \<open>
  C6: after every pass of \<^verbatim>\<open>assembleScene\<close> over the area around the center tile,
  the object of every tile slot whose tile is not ready in the cache is invisible, and the
  object of every slot whose tile is ready is visible and carries the texture of that tile.
  The slot \<open>k\<close> is the \<open>k\<close>-th tile the loops visit and the \<open>k\<close>-th object of the display.
\<close>

theorem assembleScene_slots:
  assumes "enabled s" and "dirty s" and "lastCenterTile s = Some c" and "objects s \<noteq> []"
    and "assembleScene env s = Some s'"
    and "k < length (areaTiles (mkArea env c (blocks s)))"
  shows "case cache_ready env (tileCache s) (slotId c (areaTiles (mkArea env c (blocks s)) ! k)) of
           None \<Rightarrow> \<not> visible (objects s' ! k)
         | Some tile \<Rightarrow> visible (objects s' ! k) \<and> texture (objects s' ! k) = Some (textureName tile)"
proof -
  from assembleScene_pass [OF assms(1-5)] obtain objs i l where
    loop: "forEach (\<lambda>p. tileStep env (s\<lparr>dirty := False\<rparr>) c (fst p) (snd p))
             (areaTiles (mkArea env c (blocks s))) (objects s, 0, True) = Some (objs, i, l)"
    and objs: "objects s' = objs"
    by blast
  from forEach_tileStep [OF loop] assms(6)
  have "case cache_ready env (tileCache (s\<lparr>dirty := False\<rparr>))
               (slotId c (areaTiles (mkArea env c (blocks s)) ! k)) of
          None \<Rightarrow> objs ! (0 + k) = (objects s ! (0 + k))\<lparr>visible := False\<rparr>
        | Some tile \<Rightarrow>
            (\<exists>fix. ref_fix (s\<lparr>dirty := False\<rparr>) = Some fix
               \<and> objs ! (0 + k)
                   = paintTile env (s\<lparr>dirty := False\<rparr>) c fix
                       (fst (areaTiles (mkArea env c (blocks s)) ! k))
                       (snd (areaTiles (mkArea env c (blocks s)) ! k)) tile (objects s ! (0 + k)))"
    by simp
  then show ?thesis
    by (auto simp: objs paintTile_def Let_def split: option.splits)
qed

theorem assembleScene_slots_witness:
  "enabled display0 \<and> dirty display0 \<and> lastCenterTile display0 = Some tile0 \<and> objects display0 \<noteq> []
   \<and> (\<exists>s'. assembleScene spec_env display0 = Some s'
          \<and> \<not> visible (objects s' ! 0)
          \<and> visible (objects s' ! 4) \<and> texture (objects s' ! 4) = Some ''tex0'')"
proof -
  obtain s' where s': "assembleScene spec_env display0 = Some s'"
    using assembleScene_defined [of spec_env tile0 display0] display0_runs areaTiles_display0
    by auto
  have k0: "0 < length (areaTiles (mkArea spec_env tile0 (blocks display0)))"
    and k4: "4 < length (areaTiles (mkArea spec_env tile0 (blocks display0)))"
    by (simp_all add: areaTiles_display0)
  note run = display0_runs(1-4)
  from assembleScene_slots [OF run s' k0] assembleScene_slots [OF run s' k4]
  have "\<not> visible (objects s' ! 0)
          \<and> visible (objects s' ! 4) \<and> texture (objects s' ! 4) = Some ''tex0''"
    by (simp add: areaTiles_display0 ready_display0)
  with s' run show ?thesis by blast
qed

subsection \<open>What a change of opacity and a change of zoom do\<close>

text \<open>
  C7, as the code has it: a change of the opacity changes the stored alpha and the dirty
  flag and nothing else. A change of the zoom on a disabled display only stores the zoom.
  On an enabled display it creates the tile objects anew and, when the display has a fix
  and its center tile was stored at the old zoom, stores the center tile of the fix at the
  new zoom, requests the tiles and computes the anchor again.
\<close>

theorem updateAlpha_updateZoom_effects:
  fixes s :: "'c AerialMapDisplay"
  shows "updateAlpha a s = s\<lparr>alpha := a, dirty := (dirty s \<or> (a \<noteq> alpha s \<and> enabled s))\<rparr>
       \<and> (z \<noteq> zoom s \<and> \<not> enabled s \<longrightarrow> updateZoom env fm z s = s\<lparr>zoom := z\<rparr>)
       \<and> (z \<noteq> zoom s \<and> enabled s \<longrightarrow>
            zoom (updateZoom env fm z s) = z
            \<and> objects (updateZoom env fm z s)
                = map newMapObject [count s ..< count s + nat ((2 * blocks s + 1) * (2 * blocks s + 1))])
       \<and> (z \<noteq> zoom s \<and> enabled s \<and> ref_fix s = Some msg
            \<and> (\<forall>t. lastCenterTile s = Some t \<longrightarrow> tileZoom t = zoom s) \<longrightarrow>
            updateZoom env fm z s
              = transformTileToMapFrame env fm
                  (requestTileTextures env
                     ((createTileObjects (s\<lparr>zoom := z\<rparr>))
                        \<lparr>lastCenterTile :=
                           Some \<lparr>tileServer = tile_url s,
                                 coord = fromWGSCoordinate_int env (latitude msg, longitude msg) z,
                                 tileZoom = z\<rparr>\<rparr>)))"
proof (intro conjI impI)
  show "updateAlpha a s = s\<lparr>alpha := a, dirty := (dirty s \<or> (a \<noteq> alpha s \<and> enabled s))\<rparr>"
    by (simp add: updateAlpha_def Let_def)
next
  assume "z \<noteq> zoom s \<and> \<not> enabled s"
  then show "updateZoom env fm z s = s\<lparr>zoom := z\<rparr>"
    by (simp add: updateZoom_def Let_def)
next
  assume h: "z \<noteq> zoom s \<and> enabled s"
  then show "zoom (updateZoom env fm z s) = z"
    by (simp add: updateZoom_def Let_def createTileObjects_fields updateCenterTile_fields
        split: option.splits)
next
  assume h: "z \<noteq> zoom s \<and> enabled s"
  then show "objects (updateZoom env fm z s)
      = map newMapObject [count s ..< count s + nat ((2 * blocks s + 1) * (2 * blocks s + 1))]"
    by (simp add: updateZoom_def Let_def createTileObjects_fields updateCenterTile_fields
        createTileObjects_objects split: option.splits)
next
  assume h: "z \<noteq> zoom s \<and> enabled s \<and> ref_fix s = Some msg
            \<and> (\<forall>t. lastCenterTile s = Some t \<longrightarrow> tileZoom t = zoom s)"
  let ?s2 = "createTileObjects (s\<lparr>zoom := z\<rparr>)"
  let ?new = "\<lparr>tileServer = tile_url s,
                coord = fromWGSCoordinate_int env (latitude msg, longitude msg) z, tileZoom = z\<rparr>"
  have changed: "lastCenterTile ?s2 \<noteq> Some ?new"
    using h by (auto simp: createTileObjects_fields)
  have same_fix: "?s2\<lparr>lastCenterTile := Some ?new, ref_fix := Some msg\<rparr> = ?s2\<lparr>lastCenterTile := Some ?new\<rparr>"
    using h by (simp add: createTileObjects_fields)
  have "updateZoom env fm z s = updateCenterTile env fm msg ?s2"
    using h by (simp add: updateZoom_def Let_def createTileObjects_fields)
  also have "\<dots> = transformTileToMapFrame env fm
      (requestTileTextures env (?s2\<lparr>lastCenterTile := Some ?new, ref_fix := Some msg\<rparr>))"
    using h changed
    by (simp add: updateCenterTile_def Let_def createTileObjects_fields split: option.splits)
  finally show "updateZoom env fm z s
      = transformTileToMapFrame env fm (requestTileTextures env (?s2\<lparr>lastCenterTile := Some ?new\<rparr>))"
    by (simp only: same_fix)
qed

theorem updateAlpha_updateZoom_effects_witness:
  "zoom display0 \<noteq> 17 \<and> enabled display0 \<and> ref_fix display0 = Some fix0
   \<and> lastCenterTile display0 = Some tile0 \<and> tileZoom tile0 = zoom display0
   \<and> updateAlpha 1 display0 = display0\<lparr>alpha := 1, dirty := True\<rparr>
   \<and> zoom (updateZoom spec_env fm0 17 display0) = 17
   \<and> objects (updateZoom spec_env fm0 17 display0)
       = map newMapObject [9, 10, 11, 12, 13, 14, 15, 16, 17]
   \<and> lastCenterTile (updateZoom spec_env fm0 17 display0)
       = Some \<lparr>tileServer = ''osm'', coord = \<lparr>tile_x = 65536, tile_y = 65536\<rparr>, tileZoom = 17\<rparr>"
proof -
  have h: "zoom display0 \<noteq> 17" "enabled display0" "ref_fix display0 = Some fix0"
    "\<forall>t. lastCenterTile display0 = Some t \<longrightarrow> tileZoom t = zoom display0"
    by (simp_all add: display0_def tile0_def)
  have v: "alpha display0 \<noteq> 1" "dirty display0" "count display0 = 9" "blocks display0 = 1"
    "tile_url display0 = ''osm''" "lastCenterTile display0 = Some tile0"
    "tileZoom tile0 = zoom display0"
    by (simp_all add: display0_def tile0_def)
  have c: "fromWGSCoordinate_int spec_env (latitude fix0, longitude fix0) 17
             = \<lparr>tile_x = 65536, tile_y = 65536\<rparr>"
    by (simp add: spec_env_def spec_tileIndexFloor_def spec_tileIndexFromGeo_def fix0_def Let_def)
  have u: "[9 ..< 18] = [9, 10, 11, 12, 13, 14, 15, 16, 17 :: nat]"
    by (simp add: upt_rec)
  note t = updateAlpha_updateZoom_effects
             [where a = 1 and s = display0 and z = 17 and env = spec_env and fm = fm0 and msg = fix0]
  show ?thesis
    using t h v c u
    by (simp add: requestTileTextures_fields transformTileToMapFrame_fields
        createTileObjects_fields createTileObjects_objects)
qed

text \<open>
  C7 as stated, for every change of the zoom, fails on the disabled display: the zoom
  changes, and the tile objects are not created.
\<close>

theorem updateZoom_disabled_counterexample:
  "zoom disabled0 \<noteq> 17 \<and> objects (updateZoom spec_env fm0 17 disabled0) = []
   \<and> objects (createTileObjects (disabled0\<lparr>zoom := 17\<rparr>))
       = map newMapObject [9, 10, 11, 12, 13, 14, 15, 16, 17]"
proof -
  have u: "[9 ..< 18] = [9, 10, 11, 12, 13, 14, 15, 16, 17 :: nat]"
    by (simp add: upt_rec)
  show ?thesis
    by (simp add: updateZoom_def createTileObjects_objects u disabled0_def)
qed

subsection \<open>The tile edge\<close>

text \<open>
  C8: for every latitude and zoom level, \<^verbatim>\<open>getTileWH\<close> returns the ground resolution
  at that latitude and zoom times the tile size of 256 pixels. The value is computed from
  the arguments of the call: it is the same in every state of the display.
\<close>

theorem getTileWH_resolution:
  "getTileWH env s lat z = zoomToResolution env lat z * 256
   \<and> getTileWH env s lat z = getTileWH env s' lat z"
  by (simp add: getTileWH_def tile_w_h_px_def)

subsection \<open>A fix inside the center tile\<close>

text \<open>
  C9: for every fix whose center tile (the tile URL, the tile coordinates of the fix at the
  zoom of the display, and that zoom) is the stored center tile, \<^verbatim>\<open>updateCenterTile\<close>
  changes nothing: the stored fix, the anchor and the cache stay, and neither tiles are
  requested nor is the transform computed, also when the fix differs from the stored one.
\<close>

theorem updateCenterTile_same_tile:
  assumes "lastCenterTile s
             = Some \<lparr>tileServer = tile_url s,
                     coord = fromWGSCoordinate_int env (latitude msg, longitude msg) (zoom s),
                     tileZoom = zoom s\<rparr>"
  shows "updateCenterTile env fm msg s = s"
  using assms by (simp add: updateCenterTile_def Let_def)

theorem updateCenterTile_same_tile_witness:
  "lastCenterTile display0
     = Some \<lparr>tileServer = tile_url display0,
             coord = fromWGSCoordinate_int spec_env (latitude fix1, longitude fix1) (zoom display0),
             tileZoom = zoom display0\<rparr>
   \<and> ref_fix display0 = Some fix0 \<and> longitude fix1 \<noteq> longitude fix0
   \<and> updateCenterTile spec_env fm0 fix1 display0 = display0"
proof -
  have h: "lastCenterTile display0
     = Some \<lparr>tileServer = tile_url display0,
             coord = fromWGSCoordinate_int spec_env (latitude fix1, longitude fix1) (zoom display0),
             tileZoom = zoom display0\<rparr>"
    by (simp add: display0_def tile0_def spec_env_def spec_tileIndexFloor_def
        spec_tileIndexFromGeo_def fix1_def Let_def)
  have f: "ref_fix display0 = Some fix0 \<and> longitude fix1 \<noteq> longitude fix0"
    by (simp add: display0_def fix0_def fix1_def)
  show ?thesis
    using updateCenterTile_same_tile [OF h, of fm0] h f by simp
qed

subsection \<open>The dirty flag after an assembly pass\<close>

text \<open>
  C10: after every pass of \<^verbatim>\<open>assembleScene\<close> that runs to its end, the dirty flag is
  set exactly if a tile of the area was not ready. While it is set, the next call runs the
  pass again; once it is clear, the next call returns at once.
\<close>

theorem assembleScene_dirty:
  assumes "enabled s" and "dirty s" and "lastCenterTile s = Some c" and "objects s \<noteq> []"
    and "assembleScene env s = Some s'"
  shows "(dirty s' \<longleftrightarrow>
            (\<exists>p \<in> set (areaTiles (mkArea env c (blocks s))).
               cache_ready env (tileCache s) (slotId c p) = None))
       \<and> (dirty s' \<longrightarrow> enabled s' \<and> lastCenterTile s' = Some c \<and> objects s' \<noteq> [])
       \<and> (\<not> dirty s' \<longrightarrow> assembleScene env s' = Some s')"
proof -
  from assembleScene_pass [OF assms] obtain objs i l where
    loop: "forEach (\<lambda>p. tileStep env (s\<lparr>dirty := False\<rparr>) c (fst p) (snd p))
             (areaTiles (mkArea env c (blocks s))) (objects s, 0, True) = Some (objs, i, l)"
    and objs: "objects s' = objs" and d: "dirty s' = (\<not> l)"
    and same: "enabled s' = enabled s" "lastCenterTile s' = lastCenterTile s"
    by blast
  note facts = forEach_tileStep [OF loop]
  have l: "l \<longleftrightarrow> (\<forall>p \<in> set (areaTiles (mkArea env c (blocks s))).
                     cache_ready env (tileCache s) (slotId c p) \<noteq> None)"
    using facts by simp
  have len: "length (objects s') = length (objects s)"
    using facts by (simp add: objs)
  have again: "enabled s' \<and> lastCenterTile s' = Some c \<and> objects s' \<noteq> []"
    using assms len by (auto simp: same)
  have skipped: "\<not> dirty s' \<Longrightarrow> assembleScene env s' = Some s'"
    by (simp add: assembleScene_def)
  from d l again skipped show ?thesis by auto
qed

theorem assembleScene_dirty_witness:
  "enabled display0 \<and> dirty display0 \<and> lastCenterTile display0 = Some tile0 \<and> objects display0 \<noteq> []
   \<and> (\<exists>s'. assembleScene spec_env display0 = Some s' \<and> dirty s')
   \<and> (\<exists>s'. assembleScene spec_env (display0\<lparr>blocks := 0\<rparr>) = Some s' \<and> \<not> dirty s'
          \<and> assembleScene spec_env s' = Some s')"
proof -
  note run = display0_runs(1-4)
  obtain s' where s': "assembleScene spec_env display0 = Some s'"
    using assembleScene_defined [of spec_env tile0 display0] display0_runs areaTiles_display0
    by auto
  have "dirty s'"
    using assembleScene_dirty [OF run s', THEN conjunct1]
    by (simp add: areaTiles_display0 ready_display0)
  with s' have first: "\<exists>s'. assembleScene spec_env display0 = Some s' \<and> dirty s'"
    by blast
  let ?d = "display0\<lparr>blocks := 0\<rparr>"
  have run0: "enabled ?d" "dirty ?d" "lastCenterTile ?d = Some tile0" "objects ?d \<noteq> []"
    using run by simp_all
  have tiles0: "areaTiles (mkArea spec_env tile0 0) = [(32768, 32768)]"
    by (simp add: areaTiles_def spec_env_def spec_Area_def tile0_def)
  obtain t' where t': "assembleScene spec_env ?d = Some t'"
    using assembleScene_defined [of spec_env tile0 ?d] display0_runs tiles0
    by auto
  have "\<not> dirty t' \<and> assembleScene spec_env t' = Some t'"
    using assembleScene_dirty [OF run0 t']
    by (simp add: tiles0 ready_display0)
  with t' have second: "\<exists>s'. assembleScene spec_env ?d = Some s' \<and> \<not> dirty s'
          \<and> assembleScene spec_env s' = Some s'"
    by blast
  from run first second show ?thesis by blast
qed

subsection \<open>The center tile of a display the host can produce\<close>

text \<open>
  Every display the host can produce has a consistent center tile; in particular its
  center tile, if any, has the zoom of the display.
\<close>

lemma assembleScene_fields:
  assumes "assembleScene env s = Some s'"
  shows "lastCenterTile s' = lastCenterTile s \<and> zoom s' = zoom s \<and> enabled s' = enabled s
       \<and> ref_fix s' = ref_fix s"
  using assms
  by (auto simp: assembleScene_def Let_def checkRequestErrorRate_fields
      split: if_splits option.splits)

lemma transformMapTileToFixedFrame_fields:
  "lastCenterTile (transformMapTileToFixedFrame fm s) = lastCenterTile s"
  "zoom (transformMapTileToFixedFrame fm s) = zoom s"
  "enabled (transformMapTileToFixedFrame fm s) = enabled s"
  "ref_fix (transformMapTileToFixedFrame fm s) = ref_fix s"
  by (simp_all add: transformMapTileToFixedFrame_def setStatus_def Let_def split: option.splits)

lemma update_fields:
  assumes "update env fm s = Some s'"
  shows "lastCenterTile s' = lastCenterTile s \<and> zoom s' = zoom s \<and> enabled s' = enabled s
       \<and> ref_fix s' = ref_fix s"
  using assms assembleScene_fields [of env s]
  by (auto simp: update_def transformMapTileToFixedFrame_fields split: if_splits option.splits)

lemma subscribe_fields:
  "lastCenterTile (subscribe failure s) = lastCenterTile s"
  "zoom (subscribe failure s) = zoom s"
  "enabled (subscribe failure s) = enabled s"
  "ref_fix (subscribe failure s) = ref_fix s"
  by (simp_all add: subscribe_def setStatus_def split: option.splits)

lemma clearAll_fields:
  "lastCenterTile (clearAll s) = None"
  "ref_fix (clearAll s) = None"
  "zoom (clearAll s) = zoom s"
  "enabled (clearAll s) = enabled s"
  by (simp_all add: clearAll_def setStatus_def destroyTileObjects_def Let_def)

lemma centerTileConsistent_cong:
  assumes "lastCenterTile s' = lastCenterTile s" and "zoom s' = zoom s"
    and "ref_fix s' = ref_fix s" and "enabled s' = enabled s"
  shows "centerTileConsistent s' = centerTileConsistent s"
  using assms by (simp add: centerTileConsistent_def split: option.splits)

lemma centerTileConsistent_None: "lastCenterTile s = None \<Longrightarrow> centerTileConsistent s"
  by (simp add: centerTileConsistent_def)

lemma updateCenterTile_consistent:
  assumes "centerTileConsistent s"
  shows "centerTileConsistent (updateCenterTile env fm msg s)"
proof (cases "updateCenterTile env fm msg s = s")
  case True
  with assms show ?thesis by simp
next
  case False
  let ?new = "\<lparr>tileServer = tile_url s,
                coord = fromWGSCoordinate_int env (latitude msg, longitude msg) (zoom s),
                tileZoom = zoom s\<rparr>"
  let ?s2 = "s\<lparr>lastCenterTile := Some ?new, ref_fix := Some msg\<rparr>"
  from False have en: "enabled s"
    by (cases "enabled s") (simp_all add: updateCenterTile_def)
  from False have eq: "updateCenterTile env fm msg s
      = transformTileToMapFrame env fm (requestTileTextures env ?s2)"
    by (auto simp: updateCenterTile_def Let_def split: if_splits option.splits)
  have "centerTileConsistent ?s2"
    using en by (simp add: centerTileConsistent_def)
  moreover have "centerTileConsistent (transformTileToMapFrame env fm (requestTileTextures env ?s2))
      = centerTileConsistent ?s2"
    by (rule centerTileConsistent_cong)
       (simp_all only: requestTileTextures_fields transformTileToMapFrame_fields)
  ultimately show ?thesis by (simp only: eq)
qed

lemma createTileObjects_consistent:
  "centerTileConsistent (createTileObjects s) = centerTileConsistent s"
  by (rule centerTileConsistent_cong) (simp_all only: createTileObjects_fields)

lemma updateZoom_consistent:
  assumes "centerTileConsistent s"
  shows "centerTileConsistent (updateZoom env fm z s)"
proof (cases "z = zoom s")
  case True
  with assms show ?thesis by (simp add: updateZoom_def)
next
  case changed: False
  show ?thesis
  proof (cases "lastCenterTile s")
    case None
    then have none: "centerTileConsistent (s\<lparr>zoom := z\<rparr>)"
      by (simp add: centerTileConsistent_def)
    then have "centerTileConsistent (createTileObjects (s\<lparr>zoom := z\<rparr>))"
      by (simp only: createTileObjects_consistent)
    then have "centerTileConsistent
                 (updateCenterTile env fm msg (createTileObjects (s\<lparr>zoom := z\<rparr>)))" for msg
      by (rule updateCenterTile_consistent)
    with none changed show ?thesis
      by (simp add: updateZoom_def Let_def createTileObjects_consistent split: option.splits)
  next
    case (Some t)
    with assms obtain msg where m: "ref_fix s = Some msg" and en: "enabled s"
      by (auto simp: centerTileConsistent_def)
    let ?s2 = "createTileObjects (s\<lparr>zoom := z\<rparr>)"
    let ?new = "\<lparr>tileServer = tile_url s,
                  coord = fromWGSCoordinate_int env (latitude msg, longitude msg) z,
                  tileZoom = z\<rparr>"
    let ?s3 = "?s2\<lparr>lastCenterTile := Some ?new, ref_fix := Some msg\<rparr>"
    have en2: "enabled ?s2" using en by (simp add: createTileObjects_fields)
    have "updateZoom env fm z s = updateCenterTile env fm msg ?s2"
      using changed en m by (simp add: updateZoom_def Let_def createTileObjects_fields)
    also have "\<dots> = (if lastCenterTile ?s2 = Some ?new then ?s2
                     else transformTileToMapFrame env fm (requestTileTextures env ?s3))"
      using en2
      by (auto simp: updateCenterTile_def Let_def createTileObjects_fields split: option.splits)
    finally have eq: "updateZoom env fm z s
        = (if lastCenterTile ?s2 = Some ?new then ?s2
           else transformTileToMapFrame env fm (requestTileTextures env ?s3))" .
    have a: "lastCenterTile ?s2 = Some ?new \<Longrightarrow> centerTileConsistent ?s2"
      using en m by (simp add: centerTileConsistent_def createTileObjects_fields)
    have "centerTileConsistent ?s3"
      using en2 by (simp add: centerTileConsistent_def createTileObjects_fields)
    moreover have "centerTileConsistent (transformTileToMapFrame env fm (requestTileTextures env ?s3))
        = centerTileConsistent ?s3"
      by (rule centerTileConsistent_cong)
         (simp_all only: requestTileTextures_fields transformTileToMapFrame_fields)
    ultimately have b: "centerTileConsistent
                          (transformTileToMapFrame env fm (requestTileTextures env ?s3))"
      by simp
    from a b show ?thesis by (simp only: eq split: if_splits) auto
  qed
qed

lemma clearAll_consistent: "centerTileConsistent (clearAll s)"
  by (rule centerTileConsistent_None) (simp add: clearAll_fields)

lemma subscribe_consistent: "centerTileConsistent (subscribe failure s) = centerTileConsistent s"
  by (rule centerTileConsistent_cong) (simp_all only: subscribe_fields)

lemma reachable_consistent:
  assumes "reachable env s"
  shows "centerTileConsistent s"
  using assms
proof (induction rule: reachable.induct)
  case (constructed s)
  then show ?case by (simp add: centerTileConsistent_None)
next
  case (enable s failure)
  have "lastCenterTile (s\<lparr>enabled := True\<rparr>) = None"
    using enable by (simp add: centerTileConsistent_def split: option.splits)
  then have "centerTileConsistent (s\<lparr>enabled := True\<rparr>)"
    by (rule centerTileConsistent_None)
  then show ?case
    by (simp only: onEnable_def subscribe_consistent createTileObjects_consistent)
next
  case (disable s)
  show ?case by (simp only: onDisable_def clearAll_consistent)
next
  case (alpha_changed s a)
  have "centerTileConsistent (updateAlpha a s) = centerTileConsistent s"
    by (rule centerTileConsistent_cong) (simp_all add: updateAlpha_def Let_def)
  with alpha_changed.IH show ?case by simp
next
  case (draw_under_changed s d)
  have "centerTileConsistent (updateDrawUnder d s) = centerTileConsistent s"
    by (rule centerTileConsistent_cong) (simp_all add: updateDrawUnder_def Let_def)
  with draw_under_changed.IH show ?case by simp
next
  case (tile_url_changed s url)
  have "centerTileConsistent (updateTileUrl env url s) = centerTileConsistent s"
    by (rule centerTileConsistent_cong)
       (simp_all add: updateTileUrl_def Let_def requestTileTextures_fields)
  with tile_url_changed.IH show ?case by simp
next
  case (zoom_changed s fm z)
  then show ?case by (simp only: updateZoom_consistent)
next
  case (blocks_changed s b)
  have "centerTileConsistent (updateBlocks env b s) = centerTileConsistent s"
    by (rule centerTileConsistent_cong)
       (simp_all add: updateBlocks_def Let_def requestTileTextures_fields createTileObjects_fields)
  with blocks_changed.IH show ?case by simp
next
  case (topic_changed s failure t)
  have "centerTileConsistent (s\<lparr>topic := t\<rparr>) = centerTileConsistent s"
    by (rule centerTileConsistent_cong) simp_all
  with topic_changed.IH show ?case
    by (simp add: updateTopic_def subscribe_consistent createTileObjects_consistent
        clearAll_consistent)
next
  case (was_reset s failure)
  have "centerTileConsistent (s\<lparr>status := Map.empty\<rparr>) = centerTileConsistent s"
    by (rule centerTileConsistent_cong) simp_all
  with was_reset.IH show ?case
    by (simp add: reset_def updateTopic_def subscribe_consistent createTileObjects_consistent
        clearAll_consistent)
next
  case (fix_received s fm msg)
  have "centerTileConsistent (navFixCallback env fm msg s)
      = centerTileConsistent (updateCenterTile env fm msg s)"
    by (rule centerTileConsistent_cong) (simp_all add: navFixCallback_def setStatus_def)
  with fix_received.IH show ?case by (simp add: updateCenterTile_consistent)
next
  case (rendered s fm s')
  have "centerTileConsistent s' = centerTileConsistent s"
    using update_fields [OF rendered.hyps(2)] by (intro centerTileConsistent_cong) simp_all
  with rendered.IH show ?case by simp
next
  case (cache_changed s c)
  have "centerTileConsistent (s\<lparr>tileCache := c\<rparr>) = centerTileConsistent s"
    by (rule centerTileConsistent_cong) simp_all
  with cache_changed.IH show ?case by simp
qed

lemma reachable_center_zoom:
  assumes "reachable env s"
  shows "\<forall>t. lastCenterTile s = Some t \<longrightarrow> tileZoom t = zoom s"
  using reachable_consistent [OF assms] by (auto simp: centerTileConsistent_def)

end
